theory Spec2Isabelle
  imports Complex_Main
begin

section \<open>Numbers, vectors and quaternions\<close>

text \<open>
  The vehicle controller computes with JavaScript numbers, which are binary64 doubles.
  A number is modelled here as the real it stands for. The heading \<open>steeringAngle\<close> is
  an accumulator: each step adds to it twice, and what is stored is the rounded sum. That
  rounding is modelled (\<open>binary64\<close> below), in the two additions and in the products
  they add. The blends (\<open>lerp\<close>) and the arithmetic of the impulses are modelled in exact
  arithmetic.

  The vector and quaternion operations are those of three.js, which the component
  imports as \<open>THREE\<close>; only the operations the callbacks call are modelled.
\<close>

record Vector3 =
  vec_x :: real
  vec_y :: real
  vec_z :: real

record Quaternion =
  quat_x :: real
  quat_y :: real
  quat_z :: real
  quat_w :: real

record Euler =
  euler_x :: real
  euler_y :: real
  euler_z :: real

definition vec3 :: "real \<Rightarrow> real \<Rightarrow> real \<Rightarrow> Vector3" where
  "vec3 a b c = \<lparr>vec_x = a, vec_y = b, vec_z = c\<rparr>"

text \<open>\<open>THREE.MathUtils.lerp(x, y, t)\<close> is \<open>(1 - t) * x + t * y\<close>.\<close>

definition lerp :: "real \<Rightarrow> real \<Rightarrow> real \<Rightarrow> real" where
  "lerp x y t = (1 - t) * x + t * y"

text \<open>
  Rounding to binary64: to the nearest number with a significand of 53 bits, ties to the
  even significand, with the exponent of the significand's last bit no smaller than
  \<open>-1074\<close> (the subnormal numbers). \<open>roundTiesToEven\<close> rounds to an integer,
  \<open>binary64\<close> scales by the power of two of the last bit. Overflow to \<open>Infinity\<close> is
  not modelled: every real rounds to a finite number.
\<close>

definition roundTiesToEven :: "real \<Rightarrow> int" where
  "roundTiesToEven r =
     (let f = \<lfloor>r\<rfloor>
      in if r - of_int f < 1 / 2 then f
         else if 1 / 2 < r - of_int f then f + 1
         else if even f then f else f + 1)"

definition binary64 :: "real \<Rightarrow> real" where
  "binary64 x =
     (if x = 0 then 0
      else
        (let e = max \<lfloor>log 2 \<bar>x\<bar>\<rfloor> (- 1022);
             q = e - 52
         in of_int (roundTiesToEven (x / 2 powi q)) * 2 powi q))"

definition multiplyScalar :: "Vector3 \<Rightarrow> real \<Rightarrow> Vector3" where
  "multiplyScalar v k = \<lparr>vec_x = vec_x v * k, vec_y = vec_y v * k, vec_z = vec_z v * k\<rparr>"

definition add_vec :: "Vector3 \<Rightarrow> Vector3 \<Rightarrow> Vector3" where
  "add_vec v u = \<lparr>vec_x = vec_x v + vec_x u, vec_y = vec_y v + vec_y u, vec_z = vec_z v + vec_z u\<rparr>"

definition length_vec :: "Vector3 \<Rightarrow> real" where
  "length_vec v = sqrt (vec_x v * vec_x v + vec_y v * vec_y v + vec_z v * vec_z v)"

text \<open>
  \<open>Quaternion.setFromAxisAngle(axis, angle)\<close>: the axis is assumed normalised, the
  result is \<open>(axis * sin (angle / 2), cos (angle / 2))\<close>.
\<close>

definition setFromAxisAngle :: "Vector3 \<Rightarrow> real \<Rightarrow> Quaternion" where
  "setFromAxisAngle axis angle =
     (let halfAngle = angle / 2; s = sin halfAngle
      in \<lparr>quat_x = vec_x axis * s, quat_y = vec_y axis * s, quat_z = vec_z axis * s,
          quat_w = cos halfAngle\<rparr>)"

text \<open>
  \<open>Vector3.applyQuaternion(q)\<close>: with \<open>t = 2 * cross (q.xyz, v)\<close> the result is
  \<open>v + q.w * t + cross (q.xyz, t)\<close>.
\<close>

definition applyQuaternion :: "Vector3 \<Rightarrow> Quaternion \<Rightarrow> Vector3" where
  "applyQuaternion v q =
     (let tx = 2 * (quat_y q * vec_z v - quat_z q * vec_y v);
          ty = 2 * (quat_z q * vec_x v - quat_x q * vec_z v);
          tz = 2 * (quat_x q * vec_y v - quat_y q * vec_x v)
      in \<lparr>vec_x = vec_x v + quat_w q * tx + quat_y q * tz - quat_z q * ty,
          vec_y = vec_y v + quat_w q * ty + quat_z q * tx - quat_x q * tz,
          vec_z = vec_z v + quat_w q * tz + quat_x q * ty - quat_y q * tx\<rparr>)"

section \<open>Constants of the module\<close>

definition up :: Vector3 where
  "up = vec3 0 1 0"

definition maxForwardSpeed :: real where
  "maxForwardSpeed = 5"

definition maxReverseSpeed :: real where
  "maxReverseSpeed = - 4"

definition CAMERA_lookAt :: Vector3 where
  "CAMERA_lookAt = vec3 0 (7 / 100) 0"

section \<open>The collaborators: keyboard controls and the physics engine\<close>

text \<open>
  The snapshot \<open>getKeyboardControls()\<close> returns: five booleans. The field \<open>back\<close> of the
  source is \<open>back_key\<close> here.
\<close>

record GameControls =
  forward :: bool
  back_key :: bool
  left :: bool
  right :: bool
  drift :: bool

text \<open>
  The physics engine is outside the repository. The callbacks use four of its operations,
  taken here as parameters over an arbitrary type \<open>'b\<close> of rigid bodies:
  \<^item> \<open>castRay origin direction maxToi solid excluded\<close> tells whether
    \<open>world.castRay(new rapier.Ray(origin, direction), maxToi, solid, ..., excluded)\<close>
    returns a hit (a result other than \<open>null\<close>);
  \<^item> \<open>translation\<close> and \<open>linvel\<close> read the body;
  \<^item> \<open>applyImpulse body impulse wake\<close> is the body after the impulse.
\<close>

record 'b rapier =
  castRay :: "Vector3 \<Rightarrow> Vector3 \<Rightarrow> real \<Rightarrow> bool \<Rightarrow> 'b \<Rightarrow> bool"
  translation :: "'b \<Rightarrow> Vector3"
  linvel :: "'b \<Rightarrow> Vector3"
  applyImpulse :: "'b \<Rightarrow> Vector3 \<Rightarrow> bool \<Rightarrow> 'b"

section \<open>The state of one car\<close>

text \<open>
  One field for each mutable cell the two callbacks of \<open>Car\<close> write: the \<open>useRef\<close>
  cells, the two cells of \<open>vectors\<close>, the module's scratch vectors, the transform of the
  group and the camera. The camera is kept as its position and the point it looks at.
\<close>

record car =
  steeringAngle :: real
  steeringAngleQuat :: Quaternion
  driftSteeringAngle :: real
  driftingLeft :: bool
  driftingRight :: bool
  driftSteeringVisualAngle :: real
  speed :: real
  grounded :: bool
  wheelRotation :: real
  steeringInput :: real
  impulse_scratch :: Vector3
  bodyPosition_scratch :: Vector3
  bodyEuler_scratch :: Euler
  cameraPosition_scratch :: Vector3
  group_position :: Vector3
  group_rotation :: Euler
  camera_position :: Vector3
  camera_lookAt :: Vector3

text \<open>
  The state at mount: every number \<open>0\<close>, every flag false, \<open>new THREE.Vector3()\<close> the
  zero vector, \<open>new THREE.Quaternion()\<close> the identity.
\<close>

definition initial :: car where
  "initial =
     \<lparr>steeringAngle = 0,
      steeringAngleQuat = \<lparr>quat_x = 0, quat_y = 0, quat_z = 0, quat_w = 1\<rparr>,
      driftSteeringAngle = 0,
      driftingLeft = False,
      driftingRight = False,
      driftSteeringVisualAngle = 0,
      speed = 0,
      grounded = False,
      wheelRotation = 0,
      steeringInput = 0,
      impulse_scratch = vec3 0 0 0,
      bodyPosition_scratch = vec3 0 0 0,
      bodyEuler_scratch = \<lparr>euler_x = 0, euler_y = 0, euler_z = 0\<rparr>,
      cameraPosition_scratch = vec3 0 0 0,
      group_position = vec3 0 0 0,
      group_rotation = \<lparr>euler_x = 0, euler_y = 0, euler_z = 0\<rparr>,
      camera_position = vec3 0 0 0,
      camera_lookAt = vec3 0 0 0\<rparr>"

section \<open>The callback before each physics step\<close>

text \<open>
  The callback is one function in the source, in commented sections; each section is one
  definition here, in the source's order, and \<open>beforePhysicsStep\<close> chains them.
  \<open>impulse\<close> is the local alias of the scratch vector \<open>_impulse\<close>, so a write to it is a
  write to \<open>impulse_scratch\<close>.
\<close>

datatype js_error = TypeError

text \<open>\<open>const impulse = _impulse.set(0, 0, -speed.current).multiplyScalar(5)\<close>\<close>

definition setImpulse :: "car \<Rightarrow> car" where
  "setImpulse s = s\<lparr>impulse_scratch := multiplyScalar (vec3 0 0 (- speed s)) 5\<rparr>"

text \<open>check if grounded\<close>

definition groundRayResult :: "'b rapier \<Rightarrow> 'b \<Rightarrow> bool" where
  "groundRayResult world body =
     castRay world (translation world body) (vec3 0 (- 1) 0) 1 False body"

definition checkGrounded :: "'b rapier \<Rightarrow> 'b \<Rightarrow> car \<Rightarrow> car" where
  "checkGrounded world body s = s\<lparr>grounded := groundRayResult world body\<rparr>"

text \<open>
  steering angle, update angle based on direction, update vehicle angle. The literal
  \<open>0.02\<close> is the double nearest to \<open>2 / 100\<close>; the product and the sum of
  \<open>steeringAngle.current += vectors.steeringInput.current * 0.02\<close> are rounded.
\<close>

definition steering :: "GameControls \<Rightarrow> car \<Rightarrow> car" where
  "steering c s =
     (let s = s\<lparr>steeringInput := of_bool (left c) - of_bool (right c)\<rparr>;
          s = (if vec_z (impulse_scratch s) > 0
               then s\<lparr>steeringInput := steeringInput s * (- 1)\<rparr> else s)
      in s\<lparr>steeringAngle :=
             binary64 (steeringAngle s + binary64 (steeringInput s * binary64 (2 / 100)))\<rparr>)"

text \<open>drifting controls\<close>

definition clearDrift :: "car \<Rightarrow> car" where
  "clearDrift s = s\<lparr>driftingLeft := False, driftingRight := False\<rparr>"

definition driftingControls :: "GameControls \<Rightarrow> car \<Rightarrow> car" where
  "driftingControls c s =
     (let s = (if \<not> drift c then clearDrift s else s)
      in if drift c \<and> grounded s \<and> 1 < speed s
         then
           (let s = (if left c then s\<lparr>driftingLeft := True\<rparr> else s);
                s = (if right c then s\<lparr>driftingRight := True\<rparr> else s)
            in if (driftingLeft s \<and> driftingRight s) \<or> (\<not> left c \<and> \<not> right c)
               then clearDrift s else s)
         else clearDrift s)"

text \<open>
  drift steering, and the new orientation. The product and the sum of
  \<open>steeringAngle.current += driftSteeringAngle.current * 0.01\<close> are rounded, \<open>0.01\<close> being
  the double nearest to \<open>1 / 100\<close>.
\<close>

definition driftSteering :: "car \<Rightarrow> car" where
  "driftSteering s =
     (let driftSteeringTarget =
            (if driftingLeft s then 1 else if driftingRight s then - 1 else 0);
          s = s\<lparr>driftSteeringAngle := lerp (driftSteeringAngle s) driftSteeringTarget (1 / 2)\<rparr>;
          s = s\<lparr>steeringAngle :=
                 binary64 (steeringAngle s + binary64 (driftSteeringAngle s * binary64 (1 / 100)))\<rparr>;
          s = s\<lparr>steeringAngleQuat := setFromAxisAngle up (steeringAngle s)\<rparr>
      in s\<lparr>impulse_scratch := applyQuaternion (impulse_scratch s) (steeringAngleQuat s)\<rparr>)"

text \<open>acceleration and deceleration\<close>

definition acceleration :: "GameControls \<Rightarrow> car \<Rightarrow> car" where
  "acceleration c s =
     (let speedTarget =
            (if forward c then maxForwardSpeed else if back_key c then maxReverseSpeed else 0)
      in s\<lparr>speed := lerp (speed s) speedTarget (3 / 100)\<rparr>)"

text \<open>apply impulse\<close>

definition applyDrive :: "'b rapier \<Rightarrow> Vector3 \<Rightarrow> 'b \<Rightarrow> 'b" where
  "applyDrive world impulse body =
     (if length_vec impulse > 0 then applyImpulse world body impulse True else body)"

text \<open>damping\<close>

definition damping :: "'b rapier \<Rightarrow> 'b \<Rightarrow> 'b" where
  "damping world body =
     applyImpulse world body
       (vec3 (- vec_x (linvel world body) * (15 / 10)) 0 (- vec_z (linvel world body) * (15 / 10)))
       True"

text \<open>
  The callback. \<open>bodyRef\<close> is \<open>bodyRef.current\<close>: \<open>None\<close> is \<open>null\<close>. The first use of
  the body is \<open>bodyRef.current.translation()\<close>, with no test before it: on \<open>null\<close> the call
  throws a \<open>TypeError\<close>, after \<open>_impulse\<close> was written. The result is the thrown error or
  the body after the impulses, with the state the callback leaves.
\<close>

definition beforePhysicsStep ::
  "'b rapier \<Rightarrow> GameControls \<Rightarrow> 'b option \<Rightarrow> car \<Rightarrow> (js_error + 'b) \<times> car" where
  "beforePhysicsStep world c bodyRef s =
     (let s = setImpulse s
      in case bodyRef of
           None \<Rightarrow> (Inl TypeError, s)
         | Some body \<Rightarrow>
             (let s = checkGrounded world body s;
                  s = steering c s;
                  s = driftingControls c s;
                  s = driftSteering s;
                  s = acceleration c s;
                  body = applyDrive world (impulse_scratch s) body;
                  body = damping world body
              in (Inr body, s)))"

section \<open>The callback of each rendered frame\<close>

text \<open>
  \<open>Euler.setFromQuaternion(q, "YXZ")\<close> of three.js is taken as the parameter
  \<open>setFromQuaternion\<close>. Writing \<open>group.rotation\<close> last decides the orientation of the
  group, so that is the field kept. The callback returns at once when the body is \<open>null\<close>.
\<close>

definition useFrame ::
  "(Quaternion \<Rightarrow> Euler) \<Rightarrow> 'b rapier \<Rightarrow> 'b option \<Rightarrow> real \<Rightarrow> car \<Rightarrow> car" where
  "useFrame setFromQuaternion world bodyRef delta s =
     (case bodyRef of
        None \<Rightarrow> s
      | Some body \<Rightarrow>
          (let s = s\<lparr>bodyPosition_scratch := translation world body\<rparr>;
               bodyPosition = bodyPosition_scratch s;
               s = s\<lparr>group_position := bodyPosition\<rparr>;
               s = s\<lparr>driftSteeringVisualAngle :=
                      lerp (driftSteeringVisualAngle s) (driftSteeringAngle s) (delta * 10)\<rparr>;
               s = s\<lparr>bodyEuler_scratch := setFromQuaternion (steeringAngleQuat s)\<rparr>;
               s = s\<lparr>bodyEuler_scratch := (bodyEuler_scratch s)
                      \<lparr>euler_y := euler_y (bodyEuler_scratch s)
                                    + driftSteeringVisualAngle s * (4 / 10)\<rparr>\<rparr>;
               s = s\<lparr>group_rotation := bodyEuler_scratch s\<rparr>;
               s = s\<lparr>wheelRotation := wheelRotation s - (speed s / 10) * delta * 100\<rparr>;
               s = s\<lparr>cameraPosition_scratch := add_vec bodyPosition (vec3 1 1 1)\<rparr>;
               s = s\<lparr>camera_position := cameraPosition_scratch s\<rparr>
           in s\<lparr>camera_lookAt := add_vec bodyPosition CAMERA_lookAt\<rparr>))"

section \<open>Runs\<close>

text \<open>
  The scheduler calls the two callbacks in some order, each time with the controls, the
  world and the body of that moment. A run applies a list of such calls to a state. A call
  that throws leaves the state as it was at the throw, and the run goes on: this covers
  every sequence of calls the scheduler can make, whatever it does after an error.
\<close>

datatype 'b event =
  PhysicsStep "'b rapier" GameControls "'b option"
| RenderFrame "Quaternion \<Rightarrow> Euler" "'b rapier" "'b option" real

fun dispatch :: "'b event \<Rightarrow> car \<Rightarrow> car" where
  "dispatch (PhysicsStep world c bodyRef) s = snd (beforePhysicsStep world c bodyRef s)"
| "dispatch (RenderFrame e world bodyRef delta) s = useFrame e world bodyRef delta s"

fun run :: "'b event list \<Rightarrow> car \<Rightarrow> car" where
  "run [] s = s"
| "run (e # es) s = run es (dispatch e s)"

section \<open>A physics engine to run the callbacks on\<close>

text \<open>
  For concrete runs: a body is its position, its velocity and the impulses it received,
  oldest first; an impulse adds to the velocity (unit mass); the ray hits or not as the
  world at hand says.
\<close>

record probe_body =
  probe_translation :: Vector3
  probe_linvel :: Vector3
  probe_impulses :: "Vector3 list"

definition probe_world :: "bool \<Rightarrow> probe_body rapier" where
  "probe_world hit =
     \<lparr>castRay = (\<lambda>origin direction maxToi solid excluded. hit),
      translation = probe_translation,
      linvel = probe_linvel,
      applyImpulse = (\<lambda>body impulse wake.
         body\<lparr>probe_linvel := add_vec (probe_linvel body) impulse,
              probe_impulses := probe_impulses body @ [impulse]\<rparr>)\<rparr>"

definition probe_rest :: probe_body where
  "probe_rest =
     \<lparr>probe_translation = vec3 0 0 0, probe_linvel = vec3 0 0 0, probe_impulses = []\<rparr>"

definition controls :: "bool \<Rightarrow> bool \<Rightarrow> bool \<Rightarrow> bool \<Rightarrow> bool \<Rightarrow> GameControls" where
  "controls f b l r d = \<lparr>forward = f, back_key = b, left = l, right = r, drift = d\<rparr>"

section \<open>Rounding to binary64\<close>

lemma binary64_zero: "binary64 0 = 0"
  by (simp add: binary64_def)

lemma roundTiesToEven_error: "\<bar>of_int (roundTiesToEven r) - r\<bar> \<le> 1 / 2"
  unfolding roundTiesToEven_def Let_def by (auto simp: abs_le_iff)

lemma floor_log2:
  assumes "0 < x" "2 powi e \<le> x" "x < 2 powi (e + 1)"
  shows "\<lfloor>log 2 x\<rfloor> = e"
proof -
  have "2 powr of_int e = (2::real) powi e" "2 powr of_int (e + 1) = (2::real) powi (e + 1)"
    by (simp_all only: powr_real_of_int' [of 2, simplified])
  then show ?thesis
    using assms floor_log_eq_powr_iff [of x 2 e] by simp
qed

lemma binary64_binade:
  assumes "2 powi e \<le> \<bar>x\<bar>" "\<bar>x\<bar> < 2 powi (e + 1)" "- 1022 \<le> e"
  shows "binary64 x = of_int (roundTiesToEven (x / 2 powi (e - 52))) * 2 powi (e - 52)"
proof -
  have "(0::real) < 2 powi e" by simp
  then have "0 < \<bar>x\<bar>" using assms(1) by linarith
  then have "\<lfloor>log 2 \<bar>x\<bar>\<rfloor> = e" using assms floor_log2 by blast
  moreover have "x \<noteq> 0" using \<open>0 < \<bar>x\<bar>\<close> by simp
  ultimately show ?thesis using assms(3) by (simp add: binary64_def Let_def max_def)
qed

lemma powi_floor_log2_le:
  assumes "x \<noteq> 0"
  shows "2 powi \<lfloor>log 2 \<bar>x\<bar>\<rfloor> \<le> \<bar>x\<bar>"
proof -
  have "2 powr of_int \<lfloor>log 2 \<bar>x\<bar>\<rfloor> \<le> 2 powr log 2 \<bar>x\<bar>"
    by (intro powr_mono) simp_all
  also have "\<dots> = \<bar>x\<bar>"
    using assms by simp
  finally show ?thesis
    by (simp only: powr_real_of_int' [of 2, simplified])
qed

lemma binary64_error: "\<bar>binary64 x - x\<bar> \<le> \<bar>x\<bar> / 2 ^ 53 + 1 / 2 ^ 1075"
proof (cases "x = 0")
  case True
  then show ?thesis by (simp add: binary64_def)
next
  case False
  define e where "e = max \<lfloor>log 2 \<bar>x\<bar>\<rfloor> (- 1022)"
  define P :: real where "P = 2 powi (e - 52)"
  define n where "n = roundTiesToEven (x / P)"
  have P: "0 < P" by (simp add: P_def)
  have b: "binary64 x = of_int n * P"
    using False by (simp add: binary64_def Let_def e_def P_def n_def)
  have "\<bar>of_int n * P - x\<bar> = \<bar>of_int n - x / P\<bar> * P"
    using P by (simp add: abs_mult_pos' field_simps flip: abs_mult_pos)
  also have "\<dots> \<le> (1 / 2) * P"
    using roundTiesToEven_error [of "x / P"] P unfolding n_def by (intro mult_right_mono) simp_all
  finally have err: "\<bar>binary64 x - x\<bar> \<le> P / 2"
    by (simp add: b)
  have half: "P / 2 = 2 powi e / 2 ^ 53"
    by (simp add: P_def power_int_diff)
  show ?thesis
  proof (cases "- 1022 \<le> \<lfloor>log 2 \<bar>x\<bar>\<rfloor>")
    case True
    then have "e = \<lfloor>log 2 \<bar>x\<bar>\<rfloor>" by (simp add: e_def)
    then have "2 powi e \<le> \<bar>x\<bar>" using powi_floor_log2_le [OF False] by simp
    then have "P / 2 \<le> \<bar>x\<bar> / 2 ^ 53"
      unfolding half by (intro divide_right_mono) simp_all
    then have "\<bar>binary64 x - x\<bar> \<le> \<bar>x\<bar> / 2 ^ 53"
      using err by (rule order_trans [rotated])
    moreover have "(0::real) \<le> 1 / 2 ^ 1075"
      by (intro divide_nonneg_nonneg zero_le_power) simp_all
    ultimately show ?thesis
      by (rule add_increasing2 [OF _ _, rotated])
  next
    case False
    then have "e = - 1022" by (simp add: e_def)
    then have "P / 2 = 1 / 2 ^ 1075"
      unfolding half by (simp add: power_int_minus_divide flip: power_add)
    then have "\<bar>binary64 x - x\<bar> \<le> 1 / 2 ^ 1075"
      using err by (simp only:)
    moreover have "0 \<le> \<bar>x\<bar> / 2 ^ 53"
      by (intro divide_nonneg_nonneg) simp_all
    ultimately show ?thesis
      by (rule add_increasing [OF _ _, rotated])
  qed
qed

text \<open>The two literals of the heading, as doubles.\<close>

lemma literal_002: "binary64 (2 / 100) = 5764607523034235 / 288230376151711744"
  by (subst binary64_binade [where e = "- 6"])
    (simp_all add: roundTiesToEven_def Let_def power_int_minus_divide)

lemma literal_001: "binary64 (1 / 100) = 5764607523034235 / 576460752303423488"
  by (subst binary64_binade [where e = "- 7"])
    (simp_all add: roundTiesToEven_def Let_def power_int_minus_divide)

section \<open>What one step does to each field\<close>

lemma lerp_blend: "lerp x y t = x + (y - x) * t"
  by (simp add: lerp_def algebra_simps)

lemmas section_defs = setImpulse_def checkGrounded_def steering_def driftingControls_def
  clearDrift_def driftSteering_def acceleration_def

lemma step_throws: "beforePhysicsStep world c None s = (Inl TypeError, setImpulse s)"
  by (simp add: beforePhysicsStep_def)

lemma step_completes:
  "fst (beforePhysicsStep world c (Some body) s) =
     Inr (damping world (applyDrive world
       (impulse_scratch (snd (beforePhysicsStep world c (Some body) s))) body))"
  by (simp add: beforePhysicsStep_def Let_def acceleration_def)

lemma step_speed:
  "speed (snd (beforePhysicsStep world c (Some body) s)) =
     lerp (speed s)
       (if forward c then maxForwardSpeed else if back_key c then maxReverseSpeed else 0)
       (3 / 100)"
  by (simp add: beforePhysicsStep_def section_defs Let_def)

lemma step_driftingLeft:
  "driftingLeft (snd (beforePhysicsStep world c (Some body) s)) =
     (drift c \<and> groundRayResult world body \<and> 1 < speed s \<and>
      left c \<and> \<not> right c \<and> \<not> driftingRight s)"
  by (auto simp add: beforePhysicsStep_def section_defs Let_def)

lemma step_driftingRight:
  "driftingRight (snd (beforePhysicsStep world c (Some body) s)) =
     (drift c \<and> groundRayResult world body \<and> 1 < speed s \<and>
      right c \<and> \<not> left c \<and> \<not> driftingLeft s)"
  by (auto simp add: beforePhysicsStep_def section_defs Let_def)

lemma step_driftSteeringAngle:
  "driftSteeringAngle (snd (beforePhysicsStep world c (Some body) s)) =
     lerp (driftSteeringAngle s)
       (if driftingLeft (snd (beforePhysicsStep world c (Some body) s)) then 1
        else if driftingRight (snd (beforePhysicsStep world c (Some body) s)) then - 1 else 0)
       (1 / 2)"
  by (simp add: beforePhysicsStep_def section_defs Let_def)

lemma step_steeringInput:
  "steeringInput (snd (beforePhysicsStep world c (Some body) s)) =
     (if vec_z (multiplyScalar (vec3 0 0 (- speed s)) 5) > 0
      then (of_bool (left c) - of_bool (right c)) * (- 1)
      else of_bool (left c) - of_bool (right c))"
  by (simp add: beforePhysicsStep_def section_defs Let_def)

lemma step_steeringAngle:
  "steeringAngle (snd (beforePhysicsStep world c (Some body) s)) =
     binary64
       (binary64 (steeringAngle s +
          binary64 (steeringInput (snd (beforePhysicsStep world c (Some body) s))
                      * binary64 (2 / 100)))
        + binary64 (driftSteeringAngle (snd (beforePhysicsStep world c (Some body) s))
                      * binary64 (1 / 100)))"
  by (simp add: beforePhysicsStep_def section_defs Let_def)

lemma step_steeringAngleQuat:
  "steeringAngleQuat (snd (beforePhysicsStep world c (Some body) s)) =
     setFromAxisAngle up (steeringAngle (snd (beforePhysicsStep world c (Some body) s)))"
  by (simp add: beforePhysicsStep_def section_defs Let_def)

lemma step_impulse:
  "impulse_scratch (snd (beforePhysicsStep world c (Some body) s)) =
     applyQuaternion (multiplyScalar (vec3 0 0 (- speed s)) 5)
       (steeringAngleQuat (snd (beforePhysicsStep world c (Some body) s)))"
  by (simp add: beforePhysicsStep_def section_defs Let_def)

text \<open>A step that throws and a rendered frame leave the fields of the vehicle alone.\<close>

lemma setImpulse_fields:
  "speed (setImpulse s) = speed s"
  "driftingLeft (setImpulse s) = driftingLeft s"
  "driftingRight (setImpulse s) = driftingRight s"
  "driftSteeringAngle (setImpulse s) = driftSteeringAngle s"
  "steeringAngle (setImpulse s) = steeringAngle s"
  by (simp_all add: setImpulse_def)

lemma useFrame_fields:
  "speed (useFrame e world bodyRef delta s) = speed s"
  "driftingLeft (useFrame e world bodyRef delta s) = driftingLeft s"
  "driftingRight (useFrame e world bodyRef delta s) = driftingRight s"
  "driftSteeringAngle (useFrame e world bodyRef delta s) = driftSteeringAngle s"
  "steeringAngle (useFrame e world bodyRef delta s) = steeringAngle s"
  by (simp_all add: useFrame_def Let_def split: option.split)

text \<open>Rotating \<open>(0, 0, z)\<close> about the world's up axis by an angle, in coordinates.\<close>

lemma rotate_about_up:
  "applyQuaternion (vec3 0 0 z) (setFromAxisAngle up a) = vec3 (z * sin a) 0 (z * cos a)"
proof -
  have s: "2 * sin (a / 2) * cos (a / 2) = sin a"
    using sin_double [of "a / 2"] by simp
  have c: "1 - 2 * (sin (a / 2) * sin (a / 2)) = cos a"
    using cos_double_sin [of "a / 2"] by (simp add: power2_eq_square)
  have x: "cos (a / 2) * (2 * (sin (a / 2) * z)) = z * sin a"
    using s by (simp add: algebra_simps)
  have "z * (1 - 2 * (sin (a / 2) * sin (a / 2))) = z * cos a"
    by (simp only: c)
  then have zc: "z - sin (a / 2) * (2 * (sin (a / 2) * z)) = z * cos a"
    by (simp add: algebra_simps)
  show ?thesis
    by (simp add: applyQuaternion_def setFromAxisAngle_def up_def vec3_def Let_def x zc)
qed

section \<open>Blending stays between its ends\<close>

lemma lerp_between:
  "lo \<le> x \<Longrightarrow> x \<le> hi \<Longrightarrow> lo \<le> y \<Longrightarrow> y \<le> hi \<Longrightarrow> 0 \<le> t \<Longrightarrow> t \<le> 1 \<Longrightarrow>
   lo \<le> lerp x y t \<and> lerp x y t \<le> hi"
proof -
  assume a: "lo \<le> x" "x \<le> hi" "lo \<le> y" "y \<le> hi" "0 \<le> t" "t \<le> 1"
  have l: "(1 - t) * lo + t * lo \<le> (1 - t) * x + t * y"
    using a by (intro add_mono mult_left_mono) simp_all
  have u: "(1 - t) * x + t * y \<le> (1 - t) * hi + t * hi"
    using a by (intro add_mono mult_left_mono) simp_all
  show ?thesis using l u by (simp add: lerp_def algebra_simps)
qed

lemma dispatch_speed_bounds:
  assumes "maxReverseSpeed \<le> speed s" "speed s \<le> maxForwardSpeed"
  shows "maxReverseSpeed \<le> speed (dispatch e s) \<and> speed (dispatch e s) \<le> maxForwardSpeed"
proof (cases e)
  case (PhysicsStep world c bodyRef)
  show ?thesis
  proof (cases bodyRef)
    case None
    with PhysicsStep assms show ?thesis by (simp add: step_throws setImpulse_fields)
  next
    case (Some body)
    have "maxReverseSpeed \<le> lerp (speed s) y (3 / 100) \<and> lerp (speed s) y (3 / 100) \<le> maxForwardSpeed"
      if "maxReverseSpeed \<le> y" "y \<le> maxForwardSpeed" for y
      using assms that by (intro lerp_between) simp_all
    then show ?thesis
      using PhysicsStep Some by (simp add: step_speed maxForwardSpeed_def maxReverseSpeed_def)
  qed
next
  case (RenderFrame e world bodyRef delta)
  with assms show ?thesis by (simp add: useFrame_fields)
qed

lemma run_speed_bounds:
  "maxReverseSpeed \<le> speed s \<Longrightarrow> speed s \<le> maxForwardSpeed \<Longrightarrow>
   maxReverseSpeed \<le> speed (run es s) \<and> speed (run es s) \<le> maxForwardSpeed"
proof (induction es arbitrary: s)
  case Nil
  then show ?case by simp
next
  case (Cons e es)
  then show ?case using dispatch_speed_bounds [of s e] by simp
qed

section \<open>Invariants of every run\<close>

text \<open>
  C1. From the state at mount, after any sequence of callback invocations (physics steps
  with any controls, any world and any body or none, and rendered frames between them),
  the speed lies between \<open>maxReverseSpeed = -4\<close> and \<open>maxForwardSpeed = 5\<close>: each step
  that runs computes \<open>speed + (speedTarget - speed) * 3 / 100\<close> with a target that is one
  of the two limits or \<open>0\<close>.
\<close>

theorem speed_within_limits:
  "maxReverseSpeed \<le> speed (run es initial) \<and> speed (run es initial) \<le> maxForwardSpeed \<and>
   maxReverseSpeed = - 4 \<and> maxForwardSpeed = 5 \<and>
   speed (snd (beforePhysicsStep world c (Some body) s)) =
     speed s +
     ((if forward c then maxForwardSpeed else if back_key c then maxReverseSpeed else 0)
        - speed s) * (3 / 100)"
proof -
  have "maxReverseSpeed \<le> speed (run es initial) \<and> speed (run es initial) \<le> maxForwardSpeed"
    by (rule run_speed_bounds) (simp_all add: initial_def maxForwardSpeed_def maxReverseSpeed_def)
  moreover have "speed (snd (beforePhysicsStep world c (Some body) s)) =
     speed s +
     ((if forward c then maxForwardSpeed else if back_key c then maxReverseSpeed else 0)
        - speed s) * (3 / 100)"
    by (simp only: step_speed lerp_blend)
  ultimately show ?thesis
    by (simp only: maxForwardSpeed_def maxReverseSpeed_def)
qed

lemma step_not_both:
  "\<not> (driftingLeft (snd (beforePhysicsStep world c (Some body) s)) \<and>
      driftingRight (snd (beforePhysicsStep world c (Some body) s)))"
  by (simp add: step_driftingLeft step_driftingRight)

lemma dispatch_not_both:
  assumes "\<not> (driftingLeft s \<and> driftingRight s)"
  shows "\<not> (driftingLeft (dispatch e s) \<and> driftingRight (dispatch e s))"
proof (cases e)
  case (PhysicsStep world c bodyRef)
  then show ?thesis
    using assms step_not_both [of world c _ s]
    by (cases bodyRef) (simp_all add: step_throws setImpulse_fields)
next
  case (RenderFrame e world bodyRef delta)
  with assms show ?thesis by (simp add: useFrame_fields)
qed

lemma run_not_both:
  "\<not> (driftingLeft s \<and> driftingRight s) \<Longrightarrow>
   \<not> (driftingLeft (run es s) \<and> driftingRight (run es s))"
proof (induction es arbitrary: s)
  case Nil
  then show ?case by simp
next
  case (Cons e es)
  from Cons.prems have "\<not> (driftingLeft (dispatch e s) \<and> driftingRight (dispatch e s))"
    by (rule dispatch_not_both)
  then show ?case using Cons.IH by simp
qed

text \<open>
  C2. \<open>driftingLeft\<close> and \<open>driftingRight\<close> are never both true: not after any run from
  the state at mount, and not at the end of a physics step from any state at all, even
  one where both were true before.
\<close>

theorem drift_flags_exclusive:
  "\<not> (driftingLeft (run es initial) \<and> driftingRight (run es initial)) \<and>
   \<not> (driftingLeft (snd (beforePhysicsStep world c (Some body) s)) \<and>
      driftingRight (snd (beforePhysicsStep world c (Some body) s)))"
proof
  show "\<not> (driftingLeft (run es initial) \<and> driftingRight (run es initial))"
    by (rule run_not_both) (simp add: initial_def)
  show "\<not> (driftingLeft (snd (beforePhysicsStep world c (Some body) s)) \<and>
      driftingRight (snd (beforePhysicsStep world c (Some body) s)))"
    by (rule step_not_both)
qed

section \<open>The drift state machine\<close>

text \<open>
  C8. From every prior state, one physics step with the drift control released runs to
  its end and leaves both \<open>driftingLeft\<close> and \<open>driftingRight\<close> false.
\<close>

theorem release_drift_stops_drifting:
  assumes "\<not> drift c"
  shows "(\<exists>body'. fst (beforePhysicsStep world c (Some body) s) = Inr body') \<and>
         \<not> driftingLeft (snd (beforePhysicsStep world c (Some body) s)) \<and>
         \<not> driftingRight (snd (beforePhysicsStep world c (Some body) s))"
  using assms by (simp add: step_completes step_driftingLeft step_driftingRight)

theorem release_drift_stops_drifting_witness:
  "\<not> drift (controls False False True False False) \<and>
   (\<exists>body'. fst (beforePhysicsStep (probe_world True) (controls False False True False False)
       (Some probe_rest) (initial\<lparr>speed := 2, driftingLeft := True\<rparr>)) = Inr body') \<and>
   \<not> driftingLeft (snd (beforePhysicsStep (probe_world True) (controls False False True False False)
       (Some probe_rest) (initial\<lparr>speed := 2, driftingLeft := True\<rparr>))) \<and>
   \<not> driftingRight (snd (beforePhysicsStep (probe_world True) (controls False False True False False)
       (Some probe_rest) (initial\<lparr>speed := 2, driftingLeft := True\<rparr>)))"
proof -
  have h: "\<not> drift (controls False False True False False)"
    by (simp add: controls_def)
  show ?thesis
    using h release_drift_stops_drifting [OF h, of "probe_world True" probe_rest
        "initial\<lparr>speed := 2, driftingLeft := True\<rparr>"]
    by simp
qed

text \<open>
  C5, as stated, fails. With drift held, the ray hitting and the speed above 1, holding
  only \<open>right\<close> from a state where \<open>driftingLeft\<close> is still set (the step after a left
  drift) does not end in \<open>DriftingRight\<close>: the step sets \<open>driftingRight\<close>, finds both
  flags set and clears both.
\<close>

theorem drift_switch_counterexample:
  "drift (controls False False False True True) \<and>
   right (controls False False False True True) \<and>
   \<not> left (controls False False False True True) \<and>
   groundRayResult (probe_world True) probe_rest \<and>
   1 < speed (initial\<lparr>speed := 2, driftingLeft := True\<rparr>) \<and>
   \<not> driftingRight (snd (beforePhysicsStep (probe_world True)
        (controls False False False True True) (Some probe_rest)
        (initial\<lparr>speed := 2, driftingLeft := True\<rparr>)))"
  by (simp add: step_driftingRight controls_def groundRayResult_def probe_world_def)

text \<open>
  C5, amended. In a step with drift held, the ray hitting and the speed at the start of
  the step above 1, from every prior state: the step ends with \<open>driftingLeft\<close> exactly
  when left is held, right is not and \<open>driftingRight\<close> was false before the step; it ends
  with \<open>driftingRight\<close> exactly when right is held, left is not and \<open>driftingLeft\<close> was
  false before. So with both held or neither held both flags end false, and a change of
  side passes through one step with both flags false.
\<close>

theorem drift_transitions:
  assumes "drift c" and "groundRayResult world body" and "1 < speed s"
  shows "(\<exists>body'. fst (beforePhysicsStep world c (Some body) s) = Inr body') \<and>
         driftingLeft (snd (beforePhysicsStep world c (Some body) s)) =
           (left c \<and> \<not> right c \<and> \<not> driftingRight s) \<and>
         driftingRight (snd (beforePhysicsStep world c (Some body) s)) =
           (right c \<and> \<not> left c \<and> \<not> driftingLeft s)"
  using assms by (simp add: step_completes step_driftingLeft step_driftingRight)

theorem drift_transitions_witness:
  "drift (controls False False True False True) \<and>
   groundRayResult (probe_world True) probe_rest \<and>
   1 < speed (initial\<lparr>speed := 2\<rparr>) \<and>
   driftingLeft (snd (beforePhysicsStep (probe_world True)
      (controls False False True False True) (Some probe_rest) (initial\<lparr>speed := 2\<rparr>))) \<and>
   \<not> driftingRight (snd (beforePhysicsStep (probe_world True)
      (controls False False True False True) (Some probe_rest) (initial\<lparr>speed := 2\<rparr>)))"
proof -
  have h1: "drift (controls False False True False True)"
    by (simp add: controls_def)
  have h2: "groundRayResult (probe_world True) probe_rest"
    by (simp add: groundRayResult_def probe_world_def)
  have h3: "1 < speed (initial\<lparr>speed := 2\<rparr>)"
    by simp
  show ?thesis
    using h1 h2 h3 drift_transitions [OF h1 h2 h3]
    by (simp add: controls_def initial_def)
qed

section \<open>Steering\<close>

text \<open>
  Evaluating concrete steps: the step with forward, left and drift held on a world whose
  ray hits, field by field, and the rounding of numbers with exponents from \<open>-8\<close> to
  \<open>0\<close>.
\<close>

lemma run_snoc: "run (es @ [e]) s = dispatch e (run es s)"
  by (induction es arbitrary: s) simp_all

lemma run_replicate_Suc: "run (replicate (Suc n) e) s = dispatch e (run (replicate n e) s)"
proof -
  have "replicate (Suc n) e = replicate n e @ [e]"
    by (simp add: replicate_append_same)
  then show ?thesis
    by (simp only: run_snoc)
qed

lemma held_step:
  assumes "speed s = v \<and> \<not> driftingRight s \<and> driftSteeringAngle s = d \<and> steeringAngle s = a"
  shows "speed (snd (beforePhysicsStep (probe_world True) (controls True False True False True)
            (Some probe_rest) s)) = lerp v 5 (3 / 100) \<and>
         \<not> driftingRight (snd (beforePhysicsStep (probe_world True)
            (controls True False True False True) (Some probe_rest) s)) \<and>
         driftSteeringAngle (snd (beforePhysicsStep (probe_world True)
            (controls True False True False True) (Some probe_rest) s))
           = lerp d (if 1 < v then 1 else 0) (1 / 2) \<and>
         steeringAngle (snd (beforePhysicsStep (probe_world True)
            (controls True False True False True) (Some probe_rest) s))
           = binary64 (binary64 (a + binary64 ((if v < 0 then - 1 else 1) * binary64 (2 / 100)))
               + binary64 (lerp d (if 1 < v then 1 else 0) (1 / 2) * binary64 (1 / 100)))"
  using assms
  by (simp add: step_speed step_driftingLeft step_driftingRight step_driftSteeringAngle
      step_steeringInput step_steeringAngle controls_def groundRayResult_def probe_world_def
      maxForwardSpeed_def multiplyScalar_def vec3_def)

lemmas held_eval = lerp_def literal_002 literal_001 binary64_zero roundTiesToEven_def Let_def
  power_int_minus_divide
  binary64_binade [where e = "- 8"] binary64_binade [where e = "- 7"]
  binary64_binade [where e = "- 6"] binary64_binade [where e = "- 5"]
  binary64_binade [where e = "- 4"] binary64_binade [where e = "- 3"]
  binary64_binade [where e = "- 2"] binary64_binade [where e = "- 1"]
  binary64_binade [where e = "0"]



section \<open>The rate of the heading\<close>

lemma binary64_near: "\<bar>binary64 x - x\<bar> \<le> (\<bar>x\<bar> + 1 / 1024) / 2 ^ 53"
proof -
  have "(1 :: real) / 2 ^ 1075 \<le> 1 / 2 ^ 63"
    by (intro divide_left_mono power_increasing) simp_all
  also have "\<dots> = (1 / 1024) / 2 ^ 53"
    by simp
  finally have "\<bar>x\<bar> / 2 ^ 53 + 1 / 2 ^ 1075 \<le> \<bar>x\<bar> / 2 ^ 53 + (1 / 1024) / 2 ^ 53"
    by (rule add_left_mono)
  also have "\<dots> = (\<bar>x\<bar> + 1 / 1024) / 2 ^ 53"
    by (simp only: add_divide_distrib)
  finally show ?thesis
    using binary64_error [of x] by (rule order_trans [rotated])
qed

lemma heading_arith:
  fixes T pa pb q1 d1 d2 :: real
  assumes "0 \<le> T"
    and "pa \<le> 5764607523034235 / 288230376151711744
               + (5764607523034235 / 288230376151711744 + 1 / 1024) / 2 ^ 53"
    and "pb \<le> 5764607523034235 / 576460752303423488
               + (5764607523034235 / 576460752303423488 + 1 / 1024) / 2 ^ 53"
    and "d1 \<le> pa + (T + pa + 1 / 1024) / 2 ^ 53"
    and "q1 \<le> T + d1"
    and "d2 \<le> pb + (q1 + pb + 1 / 1024) / 2 ^ 53"
  shows "d1 + d2 \<le> 2 / 100 + 1 / 100 + (T + 1) / 2 ^ 51"
proof -
  have u: "(2::real) ^ 53 = 9007199254740992" "(2::real) ^ 51 = 2251799813685248"
    by simp_all
  show ?thesis
    using assms unfolding u by argo
qed

lemma heading_step_bound:
  assumes i: "\<bar>i\<bar> \<le> 1" and d: "\<bar>d\<bar> \<le> 1"
  shows "\<bar>binary64 (binary64 (a + binary64 (i * binary64 (2 / 100)))
                  + binary64 (d * binary64 (1 / 100))) - a\<bar>
         \<le> 2 / 100 + 1 / 100 + (\<bar>a\<bar> + 1) / 2 ^ 51"
proof -
  let ?c2 = "5764607523034235 / 288230376151711744 :: real"
  let ?c1 = "5764607523034235 / 576460752303423488 :: real"
  define x where "x = binary64 (i * ?c2)"
  define y where "y = binary64 (d * ?c1)"
  define a1 where "a1 = binary64 (a + x)"
  define a2 where "a2 = binary64 (a1 + y)"
  have "\<bar>i * ?c2\<bar> = \<bar>i\<bar> * ?c2"
    by (simp add: abs_mult)
  also have "\<dots> \<le> 1 * ?c2"
    using i by (intro mult_right_mono) simp_all
  finally have ic: "\<bar>i * ?c2\<bar> \<le> ?c2"
    by simp
  have "\<bar>d * ?c1\<bar> = \<bar>d\<bar> * ?c1"
    by (simp add: abs_mult)
  also have "\<dots> \<le> 1 * ?c1"
    using d by (intro mult_right_mono) simp_all
  finally have dc: "\<bar>d * ?c1\<bar> \<le> ?c1"
    by simp
  have ex: "\<bar>x - i * ?c2\<bar> \<le> (\<bar>i * ?c2\<bar> + 1 / 1024) / 2 ^ 53"
    unfolding x_def by (rule binary64_near)
  have ey: "\<bar>y - d * ?c1\<bar> \<le> (\<bar>d * ?c1\<bar> + 1 / 1024) / 2 ^ 53"
    unfolding y_def by (rule binary64_near)
  have e1: "\<bar>a1 - (a + x)\<bar> \<le> (\<bar>a + x\<bar> + 1 / 1024) / 2 ^ 53"
    unfolding a1_def by (rule binary64_near)
  have e2: "\<bar>a2 - (a1 + y)\<bar> \<le> (\<bar>a1 + y\<bar> + 1 / 1024) / 2 ^ 53"
    unfolding a2_def by (rule binary64_near)
  have px: "\<bar>x\<bar> \<le> ?c2 + (?c2 + 1 / 1024) / 2 ^ 53"
  proof -
    have "\<bar>x\<bar> \<le> \<bar>i * ?c2\<bar> + \<bar>x - i * ?c2\<bar>"
      by linarith
    also have "\<dots> \<le> \<bar>i * ?c2\<bar> + (\<bar>i * ?c2\<bar> + 1 / 1024) / 2 ^ 53"
      using ex by (rule add_left_mono)
    also have "\<dots> \<le> ?c2 + (?c2 + 1 / 1024) / 2 ^ 53"
      using ic by (intro add_mono divide_right_mono) simp_all
    finally show ?thesis .
  qed
  have py: "\<bar>y\<bar> \<le> ?c1 + (?c1 + 1 / 1024) / 2 ^ 53"
  proof -
    have "\<bar>y\<bar> \<le> \<bar>d * ?c1\<bar> + \<bar>y - d * ?c1\<bar>"
      by linarith
    also have "\<dots> \<le> \<bar>d * ?c1\<bar> + (\<bar>d * ?c1\<bar> + 1 / 1024) / 2 ^ 53"
      using ey by (rule add_left_mono)
    also have "\<dots> \<le> ?c1 + (?c1 + 1 / 1024) / 2 ^ 53"
      using dc by (intro add_mono divide_right_mono) simp_all
    finally show ?thesis .
  qed
  have d1: "\<bar>a1 - a\<bar> \<le> \<bar>x\<bar> + (\<bar>a\<bar> + \<bar>x\<bar> + 1 / 1024) / 2 ^ 53"
  proof -
    have "\<bar>a1 - a\<bar> \<le> \<bar>x\<bar> + \<bar>a1 - (a + x)\<bar>"
      by linarith
    also have "\<dots> \<le> \<bar>x\<bar> + (\<bar>a + x\<bar> + 1 / 1024) / 2 ^ 53"
      using e1 by (rule add_left_mono)
    also have "\<dots> \<le> \<bar>x\<bar> + (\<bar>a\<bar> + \<bar>x\<bar> + 1 / 1024) / 2 ^ 53"
      by (intro add_left_mono divide_right_mono add_right_mono abs_triangle_ineq) simp
    finally show ?thesis .
  qed
  have q1: "\<bar>a1\<bar> \<le> \<bar>a\<bar> + \<bar>a1 - a\<bar>"
    by linarith
  have d2: "\<bar>a2 - a1\<bar> \<le> \<bar>y\<bar> + (\<bar>a1\<bar> + \<bar>y\<bar> + 1 / 1024) / 2 ^ 53"
  proof -
    have "\<bar>a2 - a1\<bar> \<le> \<bar>y\<bar> + \<bar>a2 - (a1 + y)\<bar>"
      by linarith
    also have "\<dots> \<le> \<bar>y\<bar> + (\<bar>a1 + y\<bar> + 1 / 1024) / 2 ^ 53"
      using e2 by (rule add_left_mono)
    also have "\<dots> \<le> \<bar>y\<bar> + (\<bar>a1\<bar> + \<bar>y\<bar> + 1 / 1024) / 2 ^ 53"
      by (intro add_left_mono divide_right_mono add_right_mono abs_triangle_ineq) simp
    finally show ?thesis .
  qed
  have "\<bar>a2 - a\<bar> \<le> \<bar>a1 - a\<bar> + \<bar>a2 - a1\<bar>"
    by linarith
  also have "\<dots> \<le> 2 / 100 + 1 / 100 + (\<bar>a\<bar> + 1) / 2 ^ 51"
  proof -
    have m1: "\<bar>a1 - a\<bar> \<le> (\<bar>x\<bar> + (\<bar>a\<bar> + \<bar>x\<bar> + 1 / 1024) / 2 ^ 53)"
      by (rule d1)
    obtain T pa pb D1 Q1 D2 :: real where v:
      "T = \<bar>a\<bar>" "pa = \<bar>x\<bar>" "pb = \<bar>y\<bar>" "D1 = \<bar>a1 - a\<bar>" "Q1 = \<bar>a1\<bar>" "D2 = \<bar>a2 - a1\<bar>"
      by blast
    have "D1 + D2 \<le> 2 / 100 + 1 / 100 + (T + 1) / 2 ^ 51"
    proof (rule heading_arith)
      show "0 \<le> T" by (simp add: v)
      show "pa \<le> ?c2 + (?c2 + 1 / 1024) / 2 ^ 53" unfolding v by (rule px)
      show "pb \<le> ?c1 + (?c1 + 1 / 1024) / 2 ^ 53" unfolding v by (rule py)
      show "D1 \<le> pa + (T + pa + 1 / 1024) / 2 ^ 53" unfolding v by (rule d1)
      show "Q1 \<le> T + D1" unfolding v by (rule q1)
      show "D2 \<le> pb + (Q1 + pb + 1 / 1024) / 2 ^ 53" unfolding v by (rule d2)
    qed
    then show ?thesis by (simp only: v)
  qed
  finally show ?thesis
    by (simp only: a2_def a1_def x_def y_def literal_002 literal_001)
qed

lemma dispatch_drift_angle:
  assumes "\<bar>driftSteeringAngle s\<bar> \<le> 1"
  shows "\<bar>driftSteeringAngle (dispatch e s)\<bar> \<le> 1"
proof (cases e)
  case (PhysicsStep world c bodyRef)
  show ?thesis
  proof (cases bodyRef)
    case None
    with PhysicsStep assms show ?thesis by (simp add: step_throws setImpulse_fields)
  next
    case (Some body)
    have "- 1 \<le> lerp (driftSteeringAngle s) y (1 / 2) \<and> lerp (driftSteeringAngle s) y (1 / 2) \<le> 1"
      if "- 1 \<le> y" "y \<le> 1" for y
      using assms that by (intro lerp_between) simp_all
    then have "\<bar>lerp (driftSteeringAngle s) y (1 / 2)\<bar> \<le> 1" if "- 1 \<le> y" "y \<le> 1" for y
      using that by (simp add: abs_le_iff)
    then show ?thesis
      using PhysicsStep Some by (simp add: step_driftSteeringAngle)
  qed
next
  case (RenderFrame e world bodyRef delta)
  with assms show ?thesis by (simp add: useFrame_fields)
qed

lemma run_drift_angle:
  "\<bar>driftSteeringAngle s\<bar> \<le> 1 \<Longrightarrow> \<bar>driftSteeringAngle (run es s)\<bar> \<le> 1"
proof (induction es arbitrary: s)
  case Nil
  then show ?case by simp
next
  case (Cons e es)
  from Cons.prems have "\<bar>driftSteeringAngle (dispatch e s)\<bar> \<le> 1"
    by (rule dispatch_drift_angle)
  then show ?case using Cons.IH by simp
qed

lemma step_steeringInput_le: "\<bar>steeringInput (snd (beforePhysicsStep world c (Some body) s))\<bar> \<le> 1"
  by (simp add: step_steeringInput)

lemma dispatch_heading:
  assumes "\<bar>driftSteeringAngle s\<bar> \<le> 1"
  shows "\<bar>steeringAngle (dispatch e s) - steeringAngle s\<bar>
         \<le> 2 / 100 + 1 / 100 + (\<bar>steeringAngle s\<bar> + 1) / 2 ^ 51"
proof -
  have slack: "(0::real) \<le> 2 / 100 + 1 / 100 + (\<bar>steeringAngle s\<bar> + 1) / 2 ^ 51"
    by (intro add_nonneg_nonneg divide_nonneg_nonneg) simp_all
  show ?thesis
  proof (cases e)
    case (PhysicsStep world c bodyRef)
    show ?thesis
    proof (cases bodyRef)
      case None
      with PhysicsStep slack show ?thesis by (simp only: dispatch.simps step_throws snd_conv setImpulse_fields diff_self abs_zero)
    next
      case (Some body)
      let ?s' = "snd (beforePhysicsStep world c (Some body) s)"
      have d: "\<bar>driftSteeringAngle ?s'\<bar> \<le> 1"
        using dispatch_drift_angle [OF assms, of "PhysicsStep world c (Some body)"] by simp
      have i: "\<bar>steeringInput ?s'\<bar> \<le> 1"
        by (rule step_steeringInput_le)
      have "\<bar>steeringAngle ?s' - steeringAngle s\<bar>
            \<le> 2 / 100 + 1 / 100 + (\<bar>steeringAngle s\<bar> + 1) / 2 ^ 51"
        by (subst step_steeringAngle) (rule heading_step_bound [OF i d])
      then show ?thesis using PhysicsStep Some by (simp only: dispatch.simps)
    qed
  next
    case (RenderFrame e world bodyRef delta)
    with slack show ?thesis by (simp only: dispatch.simps useFrame_fields diff_self abs_zero)
  qed
qed

text \<open>
  C10, as stated, fails. From the state at mount, holding forward, left and drift on a
  world whose ray hits: the 55th step changes the stored steering angle by
  \<open>135107988821115 / 2 ^ 52\<close>, more than \<open>0.02 + 0.01\<close>. The drift steering angle is
  then \<open>1 - 2 ^ -47\<close>, and the two rounded additions to a heading above 1 add more than
  what is missing to \<open>1\<close>.
\<close>

theorem heading_rate_counterexample:
  "2 / 100 + 1 / 100
   < steeringAngle (run (replicate 55 (PhysicsStep (probe_world True)
        (controls True False True False True) (Some probe_rest))) initial)
     - steeringAngle (run (replicate 54 (PhysicsStep (probe_world True)
        (controls True False True False True) (Some probe_rest))) initial)"
proof -
  define S where "S = (\<lambda>j :: int. run (replicate (nat j) (PhysicsStep (probe_world True)
    (controls True False True False True) (Some probe_rest))) initial)"
  have Sstep: "S (j + 1) = snd (beforePhysicsStep (probe_world True)
      (controls True False True False True) (Some probe_rest) (S j))" if "0 \<le> j" for j
  proof -
    have "nat (j + 1) = Suc (nat j)"
      using that by simp
    then show ?thesis
      by (simp only: S_def run_replicate_Suc dispatch.simps)
  qed
  have s0: "speed (S 0) = 0 \<and> \<not> driftingRight (S 0) \<and>
      driftSteeringAngle (S 0) = 0 \<and>
      steeringAngle (S 0) = 0"
    by (simp add: S_def initial_def)
  have s1: "speed (S 1) = 3 / 20 \<and> \<not> driftingRight (S 1) \<and>
      driftSteeringAngle (S 1) = 0 \<and>
      steeringAngle (S 1) = 5764607523034235 / 288230376151711744"
    using held_step [OF s0] by (simp add: Sstep [of 0, simplified, symmetric] held_eval)
  have s2: "speed (S 2) = 591 / 2000 \<and> \<not> driftingRight (S 2) \<and>
      driftSteeringAngle (S 2) = 0 \<and>
      steeringAngle (S 2) = 5764607523034235 / 144115188075855872"
    using held_step [OF s1] by (simp add: Sstep [of 1, simplified, symmetric] held_eval)
  have s3: "speed (S 3) = 87327 / 200000 \<and> \<not> driftingRight (S 3) \<and>
      driftSteeringAngle (S 3) = 0 \<and>
      steeringAngle (S 3) = 1080863910568919 / 18014398509481984"
    using held_step [OF s2] by (simp add: Sstep [of 2, simplified, symmetric] held_eval)
  have s4: "speed (S 4) = 11470719 / 20000000 \<and> \<not> driftingRight (S 4) \<and>
      driftSteeringAngle (S 4) = 0 \<and>
      steeringAngle (S 4) = 5764607523034235 / 72057594037927936"
    using held_step [OF s3] by (simp add: Sstep [of 3, simplified, symmetric] held_eval)
  have s5: "speed (S 5) = 1412659743 / 2000000000 \<and> \<not> driftingRight (S 5) \<and>
      driftSteeringAngle (S 5) = 0 \<and>
      steeringAngle (S 5) = 3602879701896397 / 36028797018963968"
    using held_step [OF s4] by (simp add: Sstep [of 4, simplified, symmetric] held_eval)
  have s6: "speed (S 6) = 167027995071 / 200000000000 \<and> \<not> driftingRight (S 6) \<and>
      driftSteeringAngle (S 6) = 0 \<and>
      steeringAngle (S 6) = 8646911284551353 / 72057594037927936"
    using held_step [OF s5] by (simp add: Sstep [of 5, simplified, symmetric] held_eval)
  have s7: "speed (S 7) = 19201715521887 / 20000000000000 \<and> \<not> driftingRight (S 7) \<and>
      driftSteeringAngle (S 7) = 0 \<and>
      steeringAngle (S 7) = 1261007895663739 / 9007199254740992"
    using held_step [OF s6] by (simp add: Sstep [of 6, simplified, symmetric] held_eval)
  have s8: "speed (S 8) = 2162566405623039 / 2000000000000000 \<and> \<not> driftingRight (S 8) \<and>
      driftSteeringAngle (S 8) = 0 \<and>
      steeringAngle (S 8) = 5764607523034235 / 36028797018963968"
    using held_step [OF s7] by (simp add: Sstep [of 7, simplified, symmetric] held_eval)
  have s9: "speed (S 9) = 239768941345434783 / 200000000000000000 \<and> \<not> driftingRight (S 9) \<and>
      driftSteeringAngle (S 9) = 1 / 2 \<and>
      steeringAngle (S 9) = 3332663724254167 / 18014398509481984"
    using held_step [OF s8] by (simp add: Sstep [of 8, simplified, symmetric] held_eval)
  have s10: "speed (S 10) = 26257587310507173951 / 20000000000000000000 \<and> \<not> driftingRight (S 10) \<and>
      driftSteeringAngle (S 10) = 3 / 4 \<and>
      steeringAngle (S 10) = 7656119366529843 / 36028797018963968"
    using held_step [OF s9] by (simp add: Sstep [of 9, simplified, symmetric] held_eval)
  have s11: "speed (S 11) = 2846985969119195873247 / 2000000000000000000000 \<and> \<not> driftingRight (S 11) \<and>
      driftSteeringAngle (S 11) = 7 / 8 \<and>
      steeringAngle (S 11) = 8691947280825057 / 36028797018963968"
    using held_step [OF s10] by (simp add: Sstep [of 10, simplified, symmetric] held_eval)
  have s12: "speed (S 12) = 306157639004561999704959 / 200000000000000000000000 \<and> \<not> driftingRight (S 12) \<and>
      driftSteeringAngle (S 12) = 15 / 16 \<and>
      steeringAngle (S 12) = 2437573298314281 / 9007199254740992"
    using held_step [OF s11] by (simp add: Sstep [of 11, simplified, symmetric] held_eval)
  have s13: "speed (S 13) = 32697290983442513971381023 / 20000000000000000000000000 \<and> \<not> driftingRight (S 13) \<and>
      driftSteeringAngle (S 13) = 31 / 32 \<and>
      steeringAngle (S 13) = 5409949052378809 / 18014398509481984"
    using held_step [OF s12] by (simp add: Sstep [of 12, simplified, symmetric] held_eval)
  have s14: "speed (S 14) = 3471637225393923855223959231 / 2000000000000000000000000000 \<and> \<not> driftingRight (S 14) \<and>
      driftSteeringAngle (S 14) = 63 / 64 \<and>
      steeringAngle (S 14) = 2973783128948081 / 9007199254740992"
    using held_step [OF s13] by (simp add: Sstep [of 13, simplified, symmetric] held_eval)
  have s15: "speed (S 15) = 366748810863210613956724045407 / 200000000000000000000000000000 \<and> \<not> driftingRight (S 15) \<and>
      driftSteeringAngle (S 15) = 127 / 128 \<and>
      steeringAngle (S 15) = 6486590838297069 / 18014398509481984"
    using held_step [OF s14] by (simp add: Sstep [of 14, simplified, symmetric] held_eval)
  have s16: "speed (S 16) = 38574634653731429553802232404479 / 20000000000000000000000000000000 \<and> \<not> driftingRight (S 16) \<and>
      driftSteeringAngle (S 16) = 255 / 256 \<and>
      steeringAngle (S 16) = 878289888267469 / 2251799813685248"
    using held_step [OF s15] by (simp add: Sstep [of 15, simplified, symmetric] held_eval)
  have s17: "speed (S 17) = 4041739561411948666718816543234463 / 2000000000000000000000000000000000 \<and> \<not> driftingRight (S 17) \<and>
      driftSteeringAngle (S 17) = 511 / 512 \<and>
      steeringAngle (S 17) = 1891599804425831 / 4503599627370496"
    using held_step [OF s16] by (simp add: Sstep [of 16, simplified, symmetric] held_eval)
  have s18: "speed (S 18) = 422048737456959020671725204693742911 / 200000000000000000000000000000000000 \<and> \<not> driftingRight (S 18) \<and>
      driftSteeringAngle (S 18) = 1023 / 1024 \<and>
      steeringAngle (S 18) = 2026663812781835 / 4503599627370496"
    using held_step [OF s17] by (simp add: Sstep [of 17, simplified, symmetric] held_eval)
  have s19: "speed (S 19) = 43938727533325025005157344855293062367 / 20000000000000000000000000000000000000 \<and> \<not> driftingRight (S 19) \<and>
      driftSteeringAngle (S 19) = 2047 / 2048 \<and>
      steeringAngle (S 19) = 4323499622740789 / 9007199254740992"
    using held_step [OF s18] by (simp add: Sstep [of 18, simplified, symmetric] held_eval)
  have s20: "speed (S 20) = 4562056570732527425500262450963427049599 / 2000000000000000000000000000000000000000 \<and> \<not> driftingRight (S 20) \<and>
      driftSteeringAngle (S 20) = 4095 / 4096 \<and>
      steeringAngle (S 20) = 4593693610150463 / 9007199254740992"
    using held_step [OF s19] by (simp add: Sstep [of 19, simplified, symmetric] held_eval)
  have s21: "speed (S 21) = 472519487361055160273525457743452423811103 / 200000000000000000000000000000000000000000 \<and> \<not> driftingRight (S 21) \<and>
      driftSteeringAngle (S 21) = 8191 / 8192 \<and>
      steeringAngle (S 21) = 4863898592676415 / 9007199254740992"
    using held_step [OF s20] by (simp add: Sstep [of 20, simplified, symmetric] held_eval)
  have s22: "speed (S 22) = 48834390274022350546531969401114885109676991 / 20000000000000000000000000000000000000000000 \<and> \<not> driftingRight (S 22) \<and>
      driftSteeringAngle (S 22) = 16383 / 16384 \<and>
      steeringAngle (S 22) = 2567054536380253 / 4503599627370496"
    using held_step [OF s21] by (simp add: Sstep [of 21, simplified, symmetric] held_eval)
  have s23: "speed (S 23) = 5036935856580168003013601031908143855638668127 / 2000000000000000000000000000000000000000000000 \<and> \<not> driftingRight (S 23) \<and>
      driftSteeringAngle (S 23) = 32767 / 32768 \<and>
      steeringAngle (S 23) = 2702161150811833 / 4503599627370496"
    using held_step [OF s22] by (simp add: Sstep [of 22, simplified, symmetric] held_eval)
  have s24: "speed (S 24) = 518582778088276296292319300095089953996950808319 / 200000000000000000000000000000000000000000000000 \<and> \<not> driftingRight (S 24) \<and>
      driftSteeringAngle (S 24) = 65535 / 65536 \<and>
      steeringAngle (S 24) = 5674536904876361 / 9007199254740992"
    using held_step [OF s23] by (simp add: Sstep [of 23, simplified, symmetric] held_eval)
  have s25: "speed (S 25) = 53302529474562800740354972109223725537704228406943 / 20000000000000000000000000000000000000000000000000 \<and> \<not> driftingRight (S 25) \<and>
      driftSteeringAngle (S 25) = 131071 / 131072 \<and>
      steeringAngle (S 25) = 371547012207739 / 562949953421312"
    using held_step [OF s24] by (simp add: Sstep [of 24, simplified, symmetric] held_eval)
  have s26: "speed (S 26) = 5470345359032591671814432294594701377157310155473471 / 2000000000000000000000000000000000000000000000000000 \<and> \<not> driftingRight (S 26) \<and>
      driftSteeringAngle (S 26) = 262143 / 262144 \<and>
      steeringAngle (S 26) = 3107483914684335 / 4503599627370496"
    using held_step [OF s25] by (simp add: Sstep [of 25, simplified, symmetric] held_eval)
  have s27: "speed (S 27) = 560623499826161392165999932575686033584259085080926687 / 200000000000000000000000000000000000000000000000000000 \<and> \<not> driftingRight (S 27) \<and>
      driftSteeringAngle (S 27) = 524287 / 524288 \<and>
      steeringAngle (S 27) = 405323977200763 / 562949953421312"
    using held_step [OF s26] by (simp add: Sstep [of 26, simplified, symmetric] held_eval)
  have s28: "speed (S 28) = 57380479483137655040101993459841545257673131252849888639 / 20000000000000000000000000000000000000000000000000000000 \<and> \<not> driftingRight (S 28) \<and>
      driftSteeringAngle (S 28) = 1048575 / 1048576 \<and>
      steeringAngle (S 28) = 1688849881738773 / 2251799813685248"
    using held_step [OF s27] by (simp add: Sstep [of 27, simplified, symmetric] held_eval)
  have s29: "speed (S 29) = 5865906509864352538889893365604629889994293731526439197983 / 2000000000000000000000000000000000000000000000000000000000 \<and> \<not> driftingRight (S 29) \<and>
      driftSteeringAngle (S 29) = 2097151 / 2097152 \<and>
      steeringAngle (S 29) = 7025615461647649 / 9007199254740992"
    using held_step [OF s28] by (simp add: Sstep [of 28, simplified, symmetric] held_eval)
  have s30: "speed (S 30) = 598992931456842196272319656463649099329446491958064602204351 / 200000000000000000000000000000000000000000000000000000000000 \<and> \<not> driftingRight (S 30) \<and>
      driftSteeringAngle (S 30) = 4194303 / 4194304 \<and>
      steeringAngle (S 30) = 3647915708907521 / 4503599627370496"
    using held_step [OF s29] by (simp add: Sstep [of 29, simplified, symmetric] held_eval)
  have s31: "speed (S 31) = 61102314351313693038415006676973962634956309719932266413822047 / 20000000000000000000000000000000000000000000000000000000000000 \<and> \<not> driftingRight (S 31) \<and>
      driftSteeringAngle (S 31) = 8388607 / 8388608 \<and>
      steeringAngle (S 31) = 3783023692359927 / 4503599627370496"
    using held_step [OF s30] by (simp add: Sstep [of 30, simplified, symmetric] held_eval)
  have s32: "speed (S 32) = 6226924492077428224726255647666474375590762042833429842140738559 / 2000000000000000000000000000000000000000000000000000000000000000 \<and> \<not> driftingRight (S 32) \<and>
      driftSteeringAngle (S 32) = 16777215 / 16777216 \<and>
      steeringAngle (S 32) = 7836263356993375 / 9007199254740992"
    using held_step [OF s31] by (simp add: Sstep [of 31, simplified, symmetric] held_eval)
  have s33: "speed (S 33) = 634011675731510537798446797823648014432303918154842694687651640223 / 200000000000000000000000000000000000000000000000000000000000000000 \<and> \<not> driftingRight (S 33) \<and>
      driftSteeringAngle (S 33) = 33554431 / 33554432 \<and>
      steeringAngle (S 33) = 4053239665975625 / 4503599627370496"
    using held_step [OF s32] by (simp add: Sstep [of 32, simplified, symmetric] held_eval)
  have s34: "speed (S 34) = 64499132545956522166449339388893857399933480061019741384702209101631 / 20000000000000000000000000000000000000000000000000000000000000000000 \<and> \<not> driftingRight (S 34) \<and>
      driftSteeringAngle (S 34) = 67108863 / 67108864 \<and>
      steeringAngle (S 34) = 8376695308251303 / 9007199254740992"
    using held_step [OF s33] by (simp add: Sstep [of 33, simplified, symmetric] held_eval)
  have s35: "speed (S 35) = 6556415856957782650145585920722704167793547565918914914316114282858207 / 2000000000000000000000000000000000000000000000000000000000000000000000 \<and> \<not> driftingRight (S 35) \<and>
      driftSteeringAngle (S 35) = 134217727 / 134217728 \<and>
      steeringAngle (S 35) = 2161727821305611 / 2251799813685248"
    using held_step [OF s34] by (simp add: Sstep [of 34, simplified, symmetric] held_eval)
  have s36: "speed (S 36) = 665972338124904917064121834310102304275974113894134746688663085437246079 / 200000000000000000000000000000000000000000000000000000000000000000000000 \<and> \<not> driftingRight (S 36) \<and>
      driftSteeringAngle (S 36) = 268435455 / 268435456 \<and>
      steeringAngle (S 36) = 4458563631264565 / 4503599627370496"
    using held_step [OF s35] by (simp add: Sstep [of 35, simplified, symmetric] held_eval)
  have s37: "speed (S 37) = 67599316798115776955219817928079923514769489047731070428800319287412869663 / 20000000000000000000000000000000000000000000000000000000000000000000000000 \<and> \<not> driftingRight (S 37) \<and>
      driftSteeringAngle (S 37) = 536870911 / 536870912 \<and>
      steeringAngle (S 37) = 2296835810000897 / 2251799813685248"
    using held_step [OF s36] by (simp add: Sstep [of 36, simplified, symmetric] held_eval)
  have s38: "speed (S 38) = 6857133729417230364656322339023752580932640437629913831593630970879048357311 / 2000000000000000000000000000000000000000000000000000000000000000000000000000 \<and> \<not> driftingRight (S 38) \<and>
      driftSteeringAngle (S 38) = 1073741823 / 1073741824 \<and>
      steeringAngle (S 38) = 2364389804390483 / 2251799813685248"
    using held_step [OF s37] by (simp add: Sstep [of 37, simplified, symmetric] held_eval)
  have s39: "speed (S 39) = 695141971753471345371663266885304000350466122450101641664582204175267690659167 / 200000000000000000000000000000000000000000000000000000000000000000000000000000 \<and> \<not> driftingRight (S 39) \<and>
      driftSteeringAngle (S 39) = 2147483647 / 2147483648 \<and>
      steeringAngle (S 39) = 4863887597581109 / 4503599627370496"
    using held_step [OF s38] by (simp add: Sstep [of 38, simplified, symmetric] held_eval)
  have s40: "speed (S 40) = 70428771260086720501051336887874488033995213877659859241464473805000965993939199 / 20000000000000000000000000000000000000000000000000000000000000000000000000000000 \<and> \<not> driftingRight (S 40) \<and>
      driftSteeringAngle (S 40) = 4294967295 / 4294967296 \<and>
      steeringAngle (S 40) = 2499497793195869 / 2251799813685248"
    using held_step [OF s39] by (simp add: Sstep [of 39, simplified, symmetric] held_eval)
  have s41: "speed (S 41) = 7131590812228411888601979678123825339297535746133006346422053959085093701412102303 / 2000000000000000000000000000000000000000000000000000000000000000000000000000000000 \<and> \<not> driftingRight (S 41) \<and>
      driftSteeringAngle (S 41) = 8589934591 / 8589934592 \<and>
      steeringAngle (S 41) = 2567051787603805 / 2251799813685248"
    using held_step [OF s40] by (simp add: Sstep [of 40, simplified, symmetric] held_eval)
  have s42: "speed (S 42) = 721764308786155953194392028778011057911860967374901615602939234031254089036973923391 / 200000000000000000000000000000000000000000000000000000000000000000000000000000000000 \<and> \<not> driftingRight (S 42) \<and>
      driftSteeringAngle (S 42) = 17179869183 / 17179869184 \<and>
      steeringAngle (S 42) = 658651445503263 / 562949953421312"
    using held_step [OF s41] by (simp add: Sstep [of 41, simplified, symmetric] held_eval)
  have s43: "speed (S 43) = 73011137952257127459856026791467072617450513835365456713485105701031646636586470568927 / 20000000000000000000000000000000000000000000000000000000000000000000000000000000000000 \<and> \<not> driftingRight (S 43) \<and>
      driftSteeringAngle (S 43) = 34359738367 / 34359738368 \<and>
      steeringAngle (S 43) = 1351079888211477 / 1125899906842624"
    using held_step [OF s42] by (simp add: Sstep [of 42, simplified, symmetric] held_eval)
  have s44: "speed (S 44) = 7382080381368941363606034598772306043892699842030449301208055253000069723748887645185919 / 2000000000000000000000000000000000000000000000000000000000000000000000000000000000000000 \<and> \<not> driftingRight (S 44) \<and>
      driftSteeringAngle (S 44) = 68719476735 / 68719476736 \<and>
      steeringAngle (S 44) = 86553555338537 / 70368744177664"
    using held_step [OF s43] by (simp add: Sstep [of 43, simplified, symmetric] held_eval)
  have s45: "speed (S 45) = 746061796992787312269785356080913686257591884676953582217181359541006763203642101583034143 / 200000000000000000000000000000000000000000000000000000000000000000000000000000000000000000 \<and> \<not> driftingRight (S 45) \<and>
      driftSteeringAngle (S 45) = 137438953471 / 137438953472 \<and>
      steeringAngle (S 45) = 5674535530487155 / 4503599627370496"
    using held_step [OF s44] by (simp add: Sstep [of 44, simplified, symmetric] held_eval)
  have s46: "speed (S 46) = 75367994308300369290169179539848627566986412813664497475066591875477656030753283853554311871 / 20000000000000000000000000000000000000000000000000000000000000000000000000000000000000000000 \<and> \<not> driftingRight (S 46) \<and>
      driftSteeringAngle (S 46) = 274877906943 / 274877906944 \<and>
      steeringAngle (S 46) = 2904821759654053 / 2251799813685248"
    using held_step [OF s45] by (simp add: Sstep [of 45, simplified, symmetric] held_eval)
  have s47: "speed (S 47) = 7610695447905135821146410415365316873997682042925456255081459411921332634983068533794768251487 / 2000000000000000000000000000000000000000000000000000000000000000000000000000000000000000000000 \<and> \<not> driftingRight (S 47) \<and>
      driftSteeringAngle (S 47) = 549755813887 / 549755813888 \<and>
      steeringAngle (S 47) = 5944751508129139 / 4503599627370496"
    using held_step [OF s46] by (simp add: Sstep [of 46, simplified, symmetric] held_eval)
  have s48: "speed (S 48) = 768237458446798174651201810290435736777775158163769256742901562956369265593357647778092520394239 / 200000000000000000000000000000000000000000000000000000000000000000000000000000000000000000000000 \<and> \<not> driftingRight (S 48) \<and>
      driftSteeringAngle (S 48) = 1099511627775 / 1099511627776 \<and>
      steeringAngle (S 48) = 6079859496950213 / 4503599627370496"
    using held_step [OF s47] by (simp add: Sstep [of 47, simplified, symmetric] held_eval)
  have s49: "speed (S 49) = 77519033469339422941166575598172266467444190341885617904061451606767818762555691834474974478241183 / 20000000000000000000000000000000000000000000000000000000000000000000000000000000000000000000000000 \<and> \<not> driftingRight (S 49) \<and>
      driftSteeringAngle (S 49) = 2199023255551 / 2199023255552 \<and>
      steeringAngle (S 49) = 6214967485771307 / 4503599627370496"
    using held_step [OF s48] by (simp add: Sstep [of 48, simplified, symmetric] held_eval)
  have s50: "speed (S 50) = 7819346246525924025293157833022709847342086463162904936693960805856478419967902107944072524389394751 / 2000000000000000000000000000000000000000000000000000000000000000000000000000000000000000000000000000 \<and> \<not> driftingRight (S 50) \<and>
      driftSteeringAngle (S 50) = 4398046511103 / 4398046511104 \<and>
      steeringAngle (S 50) = 1587518868648103 / 1125899906842624"
    using held_step [OF s49] by (simp add: Sstep [of 49, simplified, symmetric] held_eval)
  have s51: "speed (S 51) = 788476585913014630453436309803202855192182386926801778859314198168078406736886504470575034865771290847 / 200000000000000000000000000000000000000000000000000000000000000000000000000000000000000000000000000000 \<and> \<not> driftingRight (S 51) \<and>
      driftSteeringAngle (S 51) = 8796093022207 / 8796093022208 \<and>
      steeringAngle (S 51) = 3242591731706761 / 2251799813685248"
    using held_step [OF s50] by (simp add: Sstep [of 50, simplified, symmetric] held_eval)
  have s52: "speed (S 52) = 79482228833562419153983322050910676953641691531899772549353477222303605453477990933645778381979815212159 / 20000000000000000000000000000000000000000000000000000000000000000000000000000000000000000000000000000000 \<and> \<not> driftingRight (S 52) \<and>
      driftSteeringAngle (S 52) = 17592186044415 / 17592186044416 \<and>
      steeringAngle (S 52) = 3310145726117317 / 2251799813685248"
    using held_step [OF s51] by (simp add: Sstep [of 51, simplified, symmetric] held_eval)
  have s53: "speed (S 53) = 8009776196855554657936382238938335664503244078594277937287287290563449728987365120563640503052042075579423 / 2000000000000000000000000000000000000000000000000000000000000000000000000000000000000000000000000000000000 \<and> \<not> driftingRight (S 53) \<and>
      driftSteeringAngle (S 53) = 35184372088831 / 35184372088832 \<and>
      steeringAngle (S 53) = 1688849860263937 / 1125899906842624"
    using held_step [OF s52] by (simp add: Sstep [of 52, simplified, symmetric] held_eval)
  have s54: "speed (S 54) = 806948291094988801819829077177018559456814675623644959916866867184654623711774416694673128796048081331204031 / 200000000000000000000000000000000000000000000000000000000000000000000000000000000000000000000000000000000000 \<and> \<not> driftingRight (S 54) \<and>
      driftSteeringAngle (S 54) = 70368744177663 / 70368744177664 \<and>
      steeringAngle (S 54) = 3445253714938431 / 2251799813685248"
    using held_step [OF s53] by (simp add: Sstep [of 53, simplified, symmetric] held_eval)
  have s55: "speed (S 55) = 81273984236213913776523420486170800267311023535493561111936086116911498500042118419383293493216663889126791007 / 20000000000000000000000000000000000000000000000000000000000000000000000000000000000000000000000000000000000000 \<and> \<not> driftingRight (S 55) \<and>
      driftSteeringAngle (S 55) = 140737488355327 / 140737488355328 \<and>
      steeringAngle (S 55) = 7025615418697977 / 4503599627370496"
    using held_step [OF s54] by (simp add: Sstep [of 54, simplified, symmetric] held_eval)
  have "2 / 100 + 1 / 100 < steeringAngle (S 55) - steeringAngle (S 54)"
    using s54 s55 by simp
  then show ?thesis
    by (simp only: S_def nat_numeral)
qed

text \<open>
  C10, amended. After any run from the state at mount the drift steering angle is in
  \<open>[-1, 1]\<close> and the steering input of a step is in \<open>[-1, 1]\<close>, so the sum
  \<open>steeringInput * 0.02 + driftSteeringAngle * 0.01\<close> of a step is at most
  \<open>2 / 100 + 1 / 100\<close> in size. The stored steering angle changes, in any callback
  invocation, by at most that plus the rounding of the two additions:
  \<open>2 / 100 + 1 / 100 + (\<bar>steeringAngle\<bar> + 1) / 2 ^ 51\<close>.
\<close>

theorem heading_rate_rounded:
  "\<bar>driftSteeringAngle (run es initial)\<bar> \<le> 1 \<and>
   \<bar>steeringAngle (dispatch e (run es initial)) - steeringAngle (run es initial)\<bar>
     \<le> 2 / 100 + 1 / 100 + (\<bar>steeringAngle (run es initial)\<bar> + 1) / 2 ^ 51 \<and>
   \<bar>steeringInput (snd (beforePhysicsStep world c (Some body) (run es initial))) * (2 / 100)
     + driftSteeringAngle (snd (beforePhysicsStep world c (Some body) (run es initial))) * (1 / 100)\<bar>
     \<le> 2 / 100 + 1 / 100"
proof -
  let ?s = "run es initial"
  let ?s' = "snd (beforePhysicsStep world c (Some body) ?s)"
  have inv: "\<bar>driftSteeringAngle ?s\<bar> \<le> 1"
    by (rule run_drift_angle) (simp add: initial_def)
  have d: "\<bar>driftSteeringAngle ?s'\<bar> \<le> 1"
    using dispatch_drift_angle [OF inv, of "PhysicsStep world c (Some body)"] by simp
  have i: "\<bar>steeringInput ?s'\<bar> \<le> 1"
    by (rule step_steeringInput_le)
  have "\<bar>steeringInput ?s' * (2 / 100) + driftSteeringAngle ?s' * (1 / 100)\<bar>
        \<le> 2 / 100 + 1 / 100"
    using d i by argo
  then show ?thesis
    using inv dispatch_heading [OF inv, of e] by blast
qed

section \<open>The body reference not yet set\<close>

text \<open>
  C4, the code at the failing input. With \<open>bodyRef.current\<close> null the callback of the
  physics step does not return: it throws a \<open>TypeError\<close> at
  \<open>bodyRef.current.translation()\<close>, after it wrote the scratch vector \<open>_impulse\<close>. The
  callback of the rendered frame tests the reference first and leaves the state as it
  was.
\<close>

theorem null_body_callbacks:
  "beforePhysicsStep world c None s =
     (Inl TypeError, s\<lparr>impulse_scratch := vec3 0 0 (- speed s * 5)\<rparr>) \<and>
   useFrame e world None delta s = s"
  by (simp add: step_throws setImpulse_def multiplyScalar_def vec3_def useFrame_def)

section \<open>The drive impulse\<close>

lemma multiplyScalar_z: "multiplyScalar (vec3 0 0 z) k = vec3 0 0 (z * k)"
  by (simp add: multiplyScalar_def vec3_def)

text \<open>
  C3, as stated, fails. Two steps with forward held, from the state at mount, the body at
  rest: the second step applies the drive impulse \<open>(0, 0, -3 / 4)\<close>, five times the speed
  \<open>3 / 20\<close> it started with, and then the damping impulse. The speed after the blend of
  that step is \<open>591 / 2000\<close>, and the rotated \<open>(0, 0, -speed') * 5\<close> of the claim would be
  \<open>(0, 0, -591 / 400)\<close>.
\<close>

theorem drive_impulse_counterexample:
  "fst (beforePhysicsStep (probe_world True) (controls True False False False False)
      (Some probe_rest)
      (run [PhysicsStep (probe_world True) (controls True False False False False)
              (Some probe_rest)] initial))
     = Inr \<lparr>probe_translation = vec3 0 0 0, probe_linvel = vec3 0 0 (3 / 8),
            probe_impulses = [vec3 0 0 (- (3 / 4)), vec3 0 0 (9 / 8)]\<rparr> \<and>
   applyQuaternion
     (multiplyScalar (vec3 0 0 (- speed (snd (beforePhysicsStep (probe_world True)
        (controls True False False False False) (Some probe_rest)
        (run [PhysicsStep (probe_world True) (controls True False False False False)
                (Some probe_rest)] initial))))) 5)
     (steeringAngleQuat (snd (beforePhysicsStep (probe_world True)
        (controls True False False False False) (Some probe_rest)
        (run [PhysicsStep (probe_world True) (controls True False False False False)
                (Some probe_rest)] initial))))
     = vec3 0 0 (- (591 / 400)) \<and>
   vec3 0 0 (- (3 / 4)) \<noteq> vec3 0 0 (- (591 / 400))"
  by (simp add: beforePhysicsStep_def section_defs groundRayResult_def applyDrive_def
      damping_def Let_def probe_world_def probe_rest_def controls_def initial_def
      maxForwardSpeed_def lerp_def multiplyScalar_def applyQuaternion_def
      setFromAxisAngle_def up_def vec3_def add_vec_def length_vec_def binary64_zero)

text \<open>
  C3, amended. A step computes the raw impulse \<open>(0, 0, -speed) * 5\<close> first, from the
  speed it starts with, and blends the speed afterwards. The body it leaves is the body
  after the drive impulse (applied when its length is positive) and the damping impulse;
  the drive impulse is the raw impulse of the speed before the blend, rotated about the
  world's up axis by the steering angle as updated in this step, in coordinates
  \<open>(-speed * 5 * sin a, 0, -speed * 5 * cos a)\<close>. The speed after the step is
  \<open>speed + (speedTarget - speed) * 3 / 100\<close>.
\<close>

theorem drive_impulse_from_entry_speed:
  "fst (beforePhysicsStep world c (Some body) s) =
     Inr (damping world (applyDrive world
       (applyQuaternion (multiplyScalar (vec3 0 0 (- speed s)) 5)
          (setFromAxisAngle up (steeringAngle (snd (beforePhysicsStep world c (Some body) s)))))
       body)) \<and>
   applyQuaternion (multiplyScalar (vec3 0 0 (- speed s)) 5) (setFromAxisAngle up a) =
     vec3 (- speed s * 5 * sin a) 0 (- speed s * 5 * cos a) \<and>
   speed (snd (beforePhysicsStep world c (Some body) s)) =
     speed s +
     ((if forward c then maxForwardSpeed else if back_key c then maxReverseSpeed else 0)
        - speed s) * (3 / 100)"
proof (intro conjI)
  show "fst (beforePhysicsStep world c (Some body) s) =
     Inr (damping world (applyDrive world
       (applyQuaternion (multiplyScalar (vec3 0 0 (- speed s)) 5)
          (setFromAxisAngle up (steeringAngle (snd (beforePhysicsStep world c (Some body) s)))))
       body))"
    by (simp only: step_completes step_impulse step_steeringAngleQuat)
  show "applyQuaternion (multiplyScalar (vec3 0 0 (- speed s)) 5) (setFromAxisAngle up a) =
     vec3 (- speed s * 5 * sin a) 0 (- speed s * 5 * cos a)"
    by (simp only: multiplyScalar_z rotate_about_up)
  show "speed (snd (beforePhysicsStep world c (Some body) s)) =
     speed s +
     ((if forward c then maxForwardSpeed else if back_key c then maxReverseSpeed else 0)
        - speed s) * (3 / 100)"
    by (simp only: step_speed lerp_blend)
qed

section \<open>Throttle response\<close>

lemma run_forward_speed:
  assumes "forward c"
  shows "speed (run (map (\<lambda>(world, body). PhysicsStep world c (Some body)) wbs) s) =
         5 - (5 - speed s) * (97 / 100) ^ length wbs"
proof (induction wbs arbitrary: s)
  case Nil
  show ?case by simp
next
  case (Cons wb wbs)
  obtain world body where wb: "wb = (world, body)" by (cases wb)
  have "lerp (speed s) 5 (3 / 100) = 5 - (5 - speed s) * (97 / 100)"
    by (simp add: lerp_def field_simps)
  then have a: "speed (snd (beforePhysicsStep world c (Some body) s)) = 5 - (5 - speed s) * (97 / 100)"
    using assms by (simp add: step_speed maxForwardSpeed_def)
  have "speed (run (map (\<lambda>(world, body). PhysicsStep world c (Some body)) wbs)
          (snd (beforePhysicsStep world c (Some body) s)))
        = 5 - (5 - speed (snd (beforePhysicsStep world c (Some body) s))) * (97 / 100) ^ length wbs"
    by (rule Cons.IH)
  also have "\<dots> = 5 - (5 - (5 - (5 - speed s) * (97 / 100))) * (97 / 100) ^ length wbs"
    by (simp only: a)
  also have "\<dots> = 5 - (5 - speed s) * (97 / 100) ^ length (wb # wbs)"
    by simp
  finally show ?case using wb by simp
qed

lemma pow97_100: "(1 / 50 :: real) < (97 / 100) ^ 100"
  by (simp add: power_divide)

lemma pow97_100_upper: "(97 / 100 :: real) ^ 100 < 48 / 1000"
  by (simp add: power_divide)

lemma pow97_100_lower: "(47 / 1000 :: real) < (97 / 100) ^ 100"
  by (simp add: power_divide)

lemma pow97_129: "(97 / 100 :: real) ^ 129 < 1 / 50"
  by (simp add: power_divide)

lemma pow97_128: "(1 / 50 :: real) < (97 / 100) ^ 128"
  by (simp add: power_divide)

text \<open>
  C6, as stated, fails. After 100 steps with forward held from the state at mount the
  speed is \<open>5 * (1 - (97 / 100) ^ 100)\<close>, about 4.762: it does not exceed 4.9.
\<close>

theorem forward_100_steps_counterexample:
  "\<not> 49 / 10 < speed (run (replicate 100 (PhysicsStep (probe_world True)
        (controls True False False False False) (Some probe_rest))) initial)"
proof -
  have f: "forward (controls True False False False False)"
    by (simp add: controls_def)
  have "speed (run (map (\<lambda>(world, body). PhysicsStep world
            (controls True False False False False) (Some body))
          (replicate 100 (probe_world True, probe_rest))) initial)
        = 5 - (5 - speed initial) * (97 / 100) ^ 100"
    using run_forward_speed [OF f, of "replicate 100 (probe_world True, probe_rest)" initial]
    by simp
  then have "speed (run (replicate 100 (PhysicsStep (probe_world True)
        (controls True False False False False) (Some probe_rest))) initial)
        = 5 - 5 * (97 / 100) ^ 100"
    by (simp add: initial_def)
  then show ?thesis using pow97_100 by simp
qed

text \<open>
  C6, amended. With forward held in every step (any world, a body in each step), from
  the state at mount, the speed after \<open>n\<close> steps is \<open>5 * (1 - (97 / 100) ^ n)\<close>: below 5
  at every step, between 4.76 and 4.77 after 100 steps, and above 4.9 exactly from step
  129 on.
\<close>

theorem forward_throttle_response:
  assumes "forward c"
  shows "speed (run (map (\<lambda>(world, body). PhysicsStep world c (Some body)) wbs) initial)
           = 5 * (1 - (97 / 100) ^ length wbs) \<and>
         speed (run (map (\<lambda>(world, body). PhysicsStep world c (Some body)) wbs) initial) < 5 \<and>
         (length wbs = 100 \<longrightarrow>
            476 / 100 < speed (run (map (\<lambda>(world, body). PhysicsStep world c (Some body)) wbs) initial) \<and>
            speed (run (map (\<lambda>(world, body). PhysicsStep world c (Some body)) wbs) initial) < 477 / 100) \<and>
         (49 / 10 < speed (run (map (\<lambda>(world, body). PhysicsStep world c (Some body)) wbs) initial))
           = (129 \<le> length wbs)"
proof -
  let ?v = "speed (run (map (\<lambda>(world, body). PhysicsStep world c (Some body)) wbs) initial)"
  let ?n = "length wbs"
  have v: "?v = 5 * (1 - (97 / 100) ^ ?n)"
    using run_forward_speed [OF assms, of wbs initial] by (simp add: initial_def algebra_simps)
  have pos: "(0::real) < (97 / 100) ^ ?n"
    by simp
  have b100: "476 / 100 < ?v \<and> ?v < 477 / 100" if "?n = 100"
    using v that pow97_100_lower pow97_100_upper by simp
  have hi: "49 / 10 < ?v" if "129 \<le> ?n"
  proof -
    have "(97 / 100 :: real) ^ ?n \<le> (97 / 100) ^ 129"
      using that by (intro power_decreasing) simp_all
    then have "(97 / 100 :: real) ^ ?n < 1 / 50"
      by (rule le_less_trans [OF _ pow97_129])
    moreover have "x < 1 / 50 \<Longrightarrow> 49 / 10 < 5 * (1 - x)" for x :: real
      by argo
    ultimately show ?thesis unfolding v by blast
  qed
  have lo: "\<not> 49 / 10 < ?v" if "\<not> 129 \<le> ?n"
  proof -
    have "?n \<le> 128" using that by simp
    then have "(97 / 100 :: real) ^ 128 \<le> (97 / 100) ^ ?n"
      by (intro power_decreasing) simp_all
    then have "(1 / 50 :: real) < (97 / 100) ^ ?n"
      by (rule less_le_trans [OF pow97_128])
    moreover have "1 / 50 < x \<Longrightarrow> \<not> 49 / 10 < 5 * (1 - x)" for x :: real
      by argo
    ultimately show ?thesis unfolding v by blast
  qed
  show ?thesis using v pos b100 hi lo by auto
qed

theorem forward_throttle_response_witness:
  "forward (controls True False False False False) \<and>
   476 / 100 < speed (run (replicate 100 (PhysicsStep (probe_world True)
        (controls True False False False False) (Some probe_rest))) initial) \<and>
   speed (run (replicate 100 (PhysicsStep (probe_world True)
        (controls True False False False False) (Some probe_rest))) initial) < 477 / 100"
proof -
  have f: "forward (controls True False False False False)"
    by (simp add: controls_def)
  show ?thesis
    using f forward_throttle_response [OF f, of "replicate 100 (probe_world True, probe_rest)"]
    by simp
qed

section \<open>Sliding into a drift\<close>

lemma run_drift_left:
  assumes c: "drift c" "left c" "\<not> right c" "\<not> forward c" "\<not> back_key c"
  shows "list_all (\<lambda>(world, body). groundRayResult world body) wbs \<Longrightarrow>
         \<not> driftingRight s \<Longrightarrow> 1 < speed s * (97 / 100) ^ length wbs \<Longrightarrow>
         \<not> driftingRight (run (map (\<lambda>(world, body). PhysicsStep world c (Some body)) wbs) s) \<and>
         (wbs = [] \<or> driftingLeft (run (map (\<lambda>(world, body). PhysicsStep world c (Some body)) wbs) s)) \<and>
         driftSteeringAngle (run (map (\<lambda>(world, body). PhysicsStep world c (Some body)) wbs) s)
           = 1 - (1 - driftSteeringAngle s) * (1 / 2) ^ length wbs \<and>
         speed (run (map (\<lambda>(world, body). PhysicsStep world c (Some body)) wbs) s)
           = speed s * (97 / 100) ^ length wbs"
proof (induction wbs arbitrary: s)
  case Nil
  then show ?case by simp
next
  case (Cons wb wbs)
  obtain world body where wb: "wb = (world, body)" by (cases wb)
  let ?s1 = "snd (beforePhysicsStep world c (Some body) s)"
  let ?r = "(97 / 100 :: real) ^ length wbs"
  have hit: "groundRayResult world body" and rest: "list_all (\<lambda>(world, body). groundRayResult world body) wbs"
    using Cons.prems(1) wb by simp_all
  have big: "1 < speed s * (97 / 100) * ?r"
    using Cons.prems(3) by (simp add: mult.assoc)
  have r: "0 < ?r" "?r \<le> 1"
    by (simp_all add: power_le_one)
  have sp: "0 < speed s"
  proof (rule ccontr)
    assume "\<not> 0 < speed s"
    then have "speed s * (97 / 100) \<le> 0" by simp
    then have "speed s * (97 / 100) * ?r \<le> 0"
      using r(1) by (simp add: mult_le_0_iff)
    with big show False by simp
  qed
  have "speed s * (97 / 100) * ?r \<le> speed s * (97 / 100) * 1"
    using sp r(2) by (intro mult_left_mono) simp_all
  then have fast: "1 < speed s"
    using big sp by linarith
  have dl1: "driftingLeft ?s1" and dr1: "\<not> driftingRight ?s1"
    using c hit fast Cons.prems(2) by (simp_all add: step_driftingLeft step_driftingRight)
  have da1: "driftSteeringAngle ?s1 = 1 - (1 - driftSteeringAngle s) * (1 / 2)"
    using dl1 by (simp add: step_driftSteeringAngle lerp_def field_simps)
  have sp1: "speed ?s1 = speed s * (97 / 100)"
    using c by (simp add: step_speed lerp_def)
  have big1: "1 < speed ?s1 * ?r"
    by (simp only: sp1 big)
  note ih = Cons.IH [OF rest dr1 big1]
  have run: "run (map (\<lambda>(world, body). PhysicsStep world c (Some body)) (wb # wbs)) s
             = run (map (\<lambda>(world, body). PhysicsStep world c (Some body)) wbs) ?s1"
    using wb by simp
  have "driftingLeft (run (map (\<lambda>(world, body). PhysicsStep world c (Some body)) wbs) ?s1)"
    using ih dl1 by (cases wbs) auto
  moreover have "driftSteeringAngle (run (map (\<lambda>(world, body). PhysicsStep world c (Some body)) wbs) ?s1)
      = 1 - (1 - driftSteeringAngle s) * (1 / 2) ^ length (wb # wbs)"
    using ih da1 by simp
  moreover have "speed (run (map (\<lambda>(world, body). PhysicsStep world c (Some body)) wbs) ?s1)
      = speed s * (97 / 100) ^ length (wb # wbs)"
    using ih sp1 by simp
  ultimately show ?case using ih run by simp
qed

lemma pow97_10: "(1 / 2 :: real) < (97 / 100) ^ 10"
  by (simp add: power_divide)

lemma half_pow_small: "((1 / 2 :: real) ^ n < 1 / 100) = (7 \<le> n)"
proof (cases "7 \<le> n")
  case True
  then have "(1 / 2 :: real) ^ n \<le> (1 / 2) ^ 7"
    by (intro power_decreasing) simp_all
  then show ?thesis using True by (simp add: power_divide)
next
  case False
  then have "n \<le> 6" by simp
  then have "(1 / 2 :: real) ^ 6 \<le> (1 / 2) ^ n"
    by (intro power_decreasing) simp_all
  then show ?thesis using False by (simp add: power_divide)
qed

text \<open>
  C7. From a state that is not drifting, with drift steering angle 0 and speed 2, hold
  drift and left (not right, not forward, not back) with the ray hitting, for \<open>n\<close> steps,
  \<open>1 \<le> n \<le> 10\<close>. After them \<open>driftingLeft\<close> is set and \<open>driftingRight\<close> is not, the
  drift steering angle is \<open>1 - (1 / 2) ^ n\<close>, which exceeds \<open>99 / 100\<close> exactly from
  step 7 on, and the speed is \<open>2 * (97 / 100) ^ n\<close>, still above the threshold 1.
\<close>

theorem drift_slide_in:
  assumes "drift c" "left c" "\<not> right c" "\<not> forward c" "\<not> back_key c"
    and "list_all (\<lambda>(world, body). groundRayResult world body) wbs"
    and "1 \<le> length wbs" "length wbs \<le> 10"
    and "\<not> driftingLeft s" "\<not> driftingRight s" "driftSteeringAngle s = 0" "speed s = 2"
  shows "driftingLeft (run (map (\<lambda>(world, body). PhysicsStep world c (Some body)) wbs) s) \<and>
         \<not> driftingRight (run (map (\<lambda>(world, body). PhysicsStep world c (Some body)) wbs) s) \<and>
         driftSteeringAngle (run (map (\<lambda>(world, body). PhysicsStep world c (Some body)) wbs) s)
           = 1 - (1 / 2) ^ length wbs \<and>
         (99 / 100 < driftSteeringAngle
             (run (map (\<lambda>(world, body). PhysicsStep world c (Some body)) wbs) s))
           = (7 \<le> length wbs) \<and>
         speed (run (map (\<lambda>(world, body). PhysicsStep world c (Some body)) wbs) s)
           = 2 * (97 / 100) ^ length wbs \<and>
         1 < speed (run (map (\<lambda>(world, body). PhysicsStep world c (Some body)) wbs) s)"
proof -
  have "(97 / 100 :: real) ^ 10 \<le> (97 / 100) ^ length wbs"
    using assms(8) by (intro power_decreasing) simp_all
  then have "(1 / 2 :: real) < (97 / 100) ^ length wbs"
    by (rule less_le_trans [OF pow97_10])
  moreover have "1 / 2 < x \<Longrightarrow> 1 < 2 * x" for x :: real
    by argo
  ultimately have "1 < 2 * (97 / 100 :: real) ^ length wbs"
    by blast
  then have big: "1 < speed s * (97 / 100) ^ length wbs"
    by (simp only: assms(12))
  have ne: "wbs \<noteq> []"
    using assms(7) by auto
  note r = run_drift_left [OF assms(1-5) assms(6) assms(10) big]
  have "(99 / 100 < 1 - (1 / 2 :: real) ^ length wbs) = (7 \<le> length wbs)"
    using half_pow_small [of "length wbs"] by auto
  then show ?thesis using r ne big assms(11) assms(12) by simp
qed

theorem drift_slide_in_witness:
  "drift (controls False False True False True) \<and>
   left (controls False False True False True) \<and>
   list_all (\<lambda>(world, body). groundRayResult world body)
     (replicate 7 (probe_world True, probe_rest)) \<and>
   driftingLeft (run (replicate 7 (PhysicsStep (probe_world True)
      (controls False False True False True) (Some probe_rest))) (initial\<lparr>speed := 2\<rparr>)) \<and>
   driftSteeringAngle (run (replicate 7 (PhysicsStep (probe_world True)
      (controls False False True False True) (Some probe_rest))) (initial\<lparr>speed := 2\<rparr>))
     = 127 / 128 \<and>
   99 / 100 < driftSteeringAngle (run (replicate 7 (PhysicsStep (probe_world True)
      (controls False False True False True) (Some probe_rest))) (initial\<lparr>speed := 2\<rparr>))"
proof -
  let ?c = "controls False False True False True"
  let ?wbs = "replicate 7 (probe_world True, probe_rest)"
  have c: "drift ?c" "left ?c" "\<not> right ?c" "\<not> forward ?c" "\<not> back_key ?c"
    by (simp_all add: controls_def)
  have g: "list_all (\<lambda>(world, body). groundRayResult world body) ?wbs"
    by (simp add: list_all_iff groundRayResult_def probe_world_def)
  have n: "1 \<le> length ?wbs" "length ?wbs \<le> 10"
    by simp_all
  have s: "\<not> driftingLeft (initial\<lparr>speed := 2\<rparr>)" "\<not> driftingRight (initial\<lparr>speed := 2\<rparr>)"
    "driftSteeringAngle (initial\<lparr>speed := 2\<rparr>) = 0" "speed (initial\<lparr>speed := 2\<rparr>) = 2"
    by (simp_all add: initial_def)
  show ?thesis
    using c g drift_slide_in [OF c g n s]
    by (simp add: power_divide)
qed

end
